theory Spec2Isabelle
  imports Complex_Main
begin

section \<open>Values and errors\<close>

text \<open>
  The simulation computes with Python floats, which are modelled as reals. The one float
  that is not a number and that the source writes out itself (\<^verbatim>\<open>np.nan\<close>) is kept
  apart: a cell that may hold it has type \<open>fval\<close>.
  An exception raised while an expression is evaluated is a value \<open>Inl e\<close> of the result
  type \<open>error + 'a\<close>.
\<close>

datatype fval = NaN | Fl real

datatype error = IndexError | KeyError | NameError | UnboundLocalError | ZeroDivisionError
  | ValueError

definition bind_res :: "error + 'a \<Rightarrow> ('a \<Rightarrow> error + 'b) \<Rightarrow> error + 'b" where
  "bind_res r f = (case r of Inl e \<Rightarrow> Inl e | Inr x \<Rightarrow> f x)"

text \<open>
  A name that no scope binds: neither a parameter nor a local of the function that uses
  it, nor a global of its module. Evaluating it raises NameError.
\<close>

definition unbound_name :: "string \<Rightarrow> error + 'a" where
  "unbound_name n = Inl NameError"

text \<open>Python's comparison \<^verbatim>\<open>a > b\<close> on floats: false as soon as one side is not a number.\<close>

definition py_gt :: "fval \<Rightarrow> fval \<Rightarrow> bool" where
  "py_gt a b = (case a of NaN \<Rightarrow> False | Fl x \<Rightarrow> (case b of NaN \<Rightarrow> False | Fl y \<Rightarrow> x > y))"

text \<open>
  The builtin \<^verbatim>\<open>max(xs)\<close>: the first item, replaced by each later item that compares
  greater; ValueError on an empty sequence.
\<close>

definition py_max :: "fval list \<Rightarrow> error + fval" where
  "py_max xs = (case xs of [] \<Rightarrow> Inl ValueError
     | x # ys \<Rightarrow> Inr (fold (\<lambda>y m. if py_gt y m then y else m) ys x))"

section \<open>The adaptive-protocol rules (AP\_FNs.py)\<close>

text \<open>
  Each rule is a function of its arguments alone. A rule that the source leaves without
  a value on some path (\<^verbatim>\<open>return F\<close> with \<^verbatim>\<open>F\<close> never assigned) raises
  UnboundLocalError there.
\<close>

definition THC_Class_normal_or_above :: "real \<Rightarrow> real \<Rightarrow> bool" where
  "THC_Class_normal_or_above Tributary_Hydrologic_Condition THC_threshold =
     (if Tributary_Hydrologic_Condition > THC_threshold then True else False)"

definition LStgCorres :: "int \<Rightarrow> real \<Rightarrow> real \<Rightarrow> real \<Rightarrow> real \<Rightarrow> real" where
  "LStgCorres month WSMs_WSM1 Targ_Stg_LowChance Opt_LChance_line LowChance =
     (if Opt_LChance_line = 1 then
        (if month > 5 \<and> month < 10 then WSMs_WSM1 else WSMs_WSM1 + 0.5)
      else if LowChance = 1 \<or> (month > 5 \<and> month < 10) then -999
      else Targ_Stg_LowChance)"

definition LowChance_Check :: "real \<Rightarrow> real \<Rightarrow> bool" where
  "LowChance_Check Lake_O_Stage_AP LStgCorres_v =
     (if Lake_O_Stage_AP > LStgCorres_v then True else False)"

definition Forecast_D_Sal :: "real \<Rightarrow> error + fval" where
  "Forecast_D_Sal OptSalFcast =
     (if OptSalFcast = 1 then Inl UnboundLocalError
      else if OptSalFcast = 2 then Inl UnboundLocalError
      else if OptSalFcast = 3 then Inr NaN
      else Inl UnboundLocalError)"

definition n30d_mavg :: "real \<Rightarrow> error + fval" where
  "n30d_mavg OptSalFcast =
     (if OptSalFcast = 1 then Inl UnboundLocalError
      else if OptSalFcast = 2 then Inl UnboundLocalError
      else if OptSalFcast = 3 then Inr NaN
      else Inl UnboundLocalError)"

definition n30davgForecast :: "bool \<Rightarrow> fval list \<Rightarrow> real \<Rightarrow> real \<Rightarrow> error + bool" where
  "n30davgForecast Estuary_needs_water n30d_mavg_i2iplus13 OptSalFcast CE_SalThreshold =
     (if OptSalFcast = 3 then Inr Estuary_needs_water
      else bind_res (py_max n30d_mavg_i2iplus13)
             (\<lambda>m. if py_gt m (Fl CE_SalThreshold) then Inr True else Inr False))"

definition LORS08_bf_rel :: "real \<Rightarrow> bool \<Rightarrow> bool" where
  "LORS08_bf_rel S77BS_AP n30davgForecast_v =
     (if S77BS_AP > 0 then n30davgForecast_v else False)"

definition LDS_LC6_1 :: "bool \<Rightarrow> bool \<Rightarrow> real \<Rightarrow> bool" where
  "LDS_LC6_1 Late_Dry_Season LowChance_Check_v Late_Dry_Season_Option =
     (if Late_Dry_Season_Option = 1 then
        (if Late_Dry_Season = True then LowChance_Check_v else False)
      else LowChance_Check_v)"

definition S_O :: "bool \<Rightarrow> real \<Rightarrow> real" where
  "S_O LDS_LC6_1_v S77BS_AP =
     (if LDS_LC6_1_v = False then (if S77BS_AP > 0 then 1 else 0) else 0)"

definition All_4 :: "bool \<Rightarrow> bool \<Rightarrow> bool" where
  "All_4 LORS08_bf_rel_v LDS_LC6_1_v =
     (if LORS08_bf_rel_v = True then LDS_LC6_1_v else False)"

definition Sabf :: "real \<Rightarrow> bool" where
  "Sabf Lake_O_Schedule_Zone = (if Lake_O_Schedule_Zone > 3 then True else False)"

definition Swbf :: "real \<Rightarrow> bool" where
  "Swbf Lake_O_Schedule_Zone = (if Lake_O_Schedule_Zone = 3 then True else False)"

definition Swbu :: "real \<Rightarrow> bool" where
  "Swbu Lake_O_Schedule_Zone = (if Lake_O_Schedule_Zone = 2 then True else False)"

definition All_4andStage :: "bool \<Rightarrow> bool \<Rightarrow> bool" where
  "All_4andStage All_4_v Sabf_v = (if All_4_v = True \<and> Sabf_v = True then True else False)"

definition All_4andStagein :: "bool \<Rightarrow> bool \<Rightarrow> bool" where
  "All_4andStagein All_4_v Sabf_v = (if All_4_v = True \<and> Sabf_v = False then True else False)"

definition P_AP_BF_Stg :: "real \<Rightarrow> real \<Rightarrow> bool" where
  "P_AP_BF_Stg Lake_O_Schedule_Zone S77BS_AP =
     (if (Lake_O_Schedule_Zone > 3 \<and> Lake_O_Schedule_Zone < 7) \<and> S77BS_AP > 0
      then True else False)"

definition Logic_test_1 :: "bool \<Rightarrow> bool \<Rightarrow> real \<Rightarrow> bool" where
  "Logic_test_1 All_4andStage_v P_AP_BF_Stg_v Opt_NoAP_above_BF_SB =
     (if Opt_NoAP_above_BF_SB = 0 then All_4andStage_v else P_AP_BF_Stg_v)"

definition Post_Ap_Baseflow :: "bool \<Rightarrow> real \<Rightarrow> bool \<Rightarrow> real \<Rightarrow> real" where
  "Post_Ap_Baseflow Logic_test_1_v S77BS_AP All_4andStagein_v Choose_1 =
     (if Logic_test_1_v = True then S77BS_AP
      else if All_4andStagein_v = True then min S77BS_AP Choose_1
      else 0)"

definition S77RSplusPreAPS77bsf :: "real \<Rightarrow> real \<Rightarrow> real \<Rightarrow> bool" where
  "S77RSplusPreAPS77bsf S77RS_Pre_AP_S77_Baseflow Lake_O_Schedule_Zone Opt_CEews_LOWSM =
     (if Opt_CEews_LOWSM = 0 then
        (if S77RS_Pre_AP_S77_Baseflow = 0 \<and> Lake_O_Schedule_Zone > 1 then True else False)
      else if S77RS_Pre_AP_S77_Baseflow = 0 then True
      else False)"

definition AndEstNeedsLakeWater :: "bool \<Rightarrow> bool \<Rightarrow> bool" where
  "AndEstNeedsLakeWater n30davgForecast_v S77RSplusPreAPS77bsf_v =
     (if n30davgForecast_v = True \<and> S77RSplusPreAPS77bsf_v = True then True else False)"

definition AndLowChance61stagelessth11 :: "bool \<Rightarrow> bool \<Rightarrow> bool" where
  "AndLowChance61stagelessth11 LDS_LC6_1_v AndEstNeedsLakeWater_v =
     (if LDS_LC6_1_v = True \<and> AndEstNeedsLakeWater_v = True then True else False)"

definition ATHCnora :: "bool \<Rightarrow> bool \<Rightarrow> bool \<Rightarrow> real \<Rightarrow> bool" where
  "ATHCnora AndLowChance61stagelessth11_v THC_Class_normal_or_above_v Late_Dry_Season
       Opt_THCbypLateDS =
     (if Opt_THCbypLateDS = 1 then
        (if AndLowChance61stagelessth11_v = True
            \<and> (THC_Class_normal_or_above_v = True \<or> Late_Dry_Season = True)
         then True else False)
      else
        (if AndLowChance61stagelessth11_v = True \<and> THC_Class_normal_or_above_v = True
         then True else False))"

definition Choose_PAPEWS_1 :: "real \<Rightarrow> real \<Rightarrow> real \<Rightarrow> real \<Rightarrow> real \<Rightarrow> real" where
  "Choose_PAPEWS_1 WSM_Zone APCB1 APCB2 APCB3 APCB4 =
     (if WSM_Zone = 1 then APCB1 / 100
      else if WSM_Zone = 2 then APCB2 / 100
      else if WSM_Zone = 3 then APCB3 / 100
      else if WSM_Zone = 4 then APCB4 / 100
      else -9999)"

definition Choose_PAPEWS_2 :: "real \<Rightarrow> real \<Rightarrow> error + real" where
  "Choose_PAPEWS_2 Opt_CEews_LOWSM CalEst_ews =
     (if Opt_CEews_LOWSM + 1 = 1 then Inr 0
      else if Opt_CEews_LOWSM + 1 = 2 then Inr CalEst_ews
      else if Opt_CEews_LOWSM + 1 = 3 then Inr 300
      else Inl UnboundLocalError)"

definition Post_AP_EWS :: "bool \<Rightarrow> real \<Rightarrow> real \<Rightarrow> real \<Rightarrow> real \<Rightarrow> real" where
  "Post_AP_EWS ATHCnora_v WSM_Zone Choose_PAPEWS_1_v Choose_PAPEWS_2_v CalEst_ews =
     (if ATHCnora_v = True then
        (if WSM_Zone = 0 then CalEst_ews else (1 - Choose_PAPEWS_1_v) * Choose_PAPEWS_2_v)
      else 0)"

section \<open>The model-variable store and its statements\<close>

text \<open>
  The class \<^verbatim>\<open>M_var\<close> holds one array per model variable, and the simulation mutates
  these arrays in place. The store maps the name of an array and an index to the cell.
  Four kinds of cell occur: floats (\<open>arr\<close>), floats that may be not-a-number
  (\<open>arr_nan\<close>: \<^verbatim>\<open>Forecast_D_Sal\<close>, \<^verbatim>\<open>n30d_mavg\<close>, \<^verbatim>\<open>DecTree_Relslevel\<close>),
  integers used as indices (\<open>arr_int\<close>: \<^verbatim>\<open>PlsDay\<close>) and day flags (\<open>arr_flag\<close>:
  \<^verbatim>\<open>DayFlags\<close>). A flag stored in a float array reads back as 1.0 or 0.0, which Python
  compares equal to \<^verbatim>\<open>True\<close> and \<^verbatim>\<open>False\<close>: the model stores \<open>of_bool b\<close> and reads
  \<open>x = 1\<close>.

  \<open>lo_model_out\<close> holds the columns that \<^verbatim>\<open>_update_lo_model\<close> puts into the data frame
  \<^verbatim>\<open>lo_model\<close>. \<open>written\<close> is a ghost field: every assignment to a cell of a model-variable
  array appends the cell to it, in program order.

  The arrays are mutated in place, so what has been assigned when an exception is raised
  stays assigned. A statement therefore either returns the new state (\<open>Inr s'\<close>) or
  raises with the state it has reached (\<open>Inl (e, s')\<close>); \<open>final_state\<close> is that state in
  both cases.

  An array is a total function of the index. \<^verbatim>\<open>M_var\<close> allocates \<open>n_rows\<close> cells for
  the arrays of the water balance and \<open>n_rows - 1\<close> for the arrays indexed by the days
  of the run; the loop runs \<open>i\<close> over \<^verbatim>\<open>range(n_rows - 2)\<close> and accesses the former at
  \<open>i + 2\<close> at most and the latter at \<open>i\<close>, so these accesses are in range
  (\<open>daily_writes_in_range\<close> below, for the assignments) and the IndexError of an
  access at a fixed offset is not part of the model of the loop. Where the index is
  computed from the state (\<open>np_get\<close>, \<open>df_at\<close>) or the array may be shorter than the
  index (the initial assignments, \<open>assign_in\<close>), the error is.
\<close>

datatype date = Date (year: int) (month: int) (day: int)

datatype dayflag = NoFlag | SimDay1 | CS_start_date | OnDate date

type_synonym cell = "string \<times> nat"

record state =
  arr :: "string \<Rightarrow> nat \<Rightarrow> real"
  arr_nan :: "string \<Rightarrow> nat \<Rightarrow> fval"
  arr_int :: "string \<Rightarrow> nat \<Rightarrow> int"
  arr_flag :: "string \<Rightarrow> nat \<Rightarrow> dayflag"
  lo_model_out :: "string \<Rightarrow> nat \<Rightarrow> real"
  written :: "cell list"

type_synonym outcome = "(error \<times> state) + state"

type_synonym stmt = "state \<Rightarrow> outcome"

definition final_state :: "outcome \<Rightarrow> state" where
  "final_state r = (case r of Inl es \<Rightarrow> snd es | Inr s \<Rightarrow> s)"

definition raise :: "error \<Rightarrow> stmt" where
  "raise e s = Inl (e, s)"

text \<open>\<^verbatim>\<open>model_variables.v[k] = e\<close>, for each kind of cell; \<open>e\<close> reads the current state.\<close>

definition assign :: "string \<Rightarrow> nat \<Rightarrow> (state \<Rightarrow> real) \<Rightarrow> stmt" where
  "assign v k e s =
     Inr (s\<lparr>arr := (arr s)(v := (arr s v)(k := e s)), written := written s @ [(v, k)]\<rparr>)"

definition assign_nan :: "string \<Rightarrow> nat \<Rightarrow> (state \<Rightarrow> fval) \<Rightarrow> stmt" where
  "assign_nan v k e s =
     Inr (s\<lparr>arr_nan := (arr_nan s)(v := (arr_nan s v)(k := e s)),
            written := written s @ [(v, k)]\<rparr>)"

definition assign_int :: "string \<Rightarrow> nat \<Rightarrow> (state \<Rightarrow> int) \<Rightarrow> stmt" where
  "assign_int v k e s =
     Inr (s\<lparr>arr_int := (arr_int s)(v := (arr_int s v)(k := e s)),
            written := written s @ [(v, k)]\<rparr>)"

definition assign_flag :: "string \<Rightarrow> nat \<Rightarrow> (state \<Rightarrow> dayflag) \<Rightarrow> stmt" where
  "assign_flag v k e s =
     Inr (s\<lparr>arr_flag := (arr_flag s)(v := (arr_flag s v)(k := e s)),
            written := written s @ [(v, k)]\<rparr>)"

text \<open>
  The same, where evaluating the right-hand side may raise: the statement raises then, and
  the cell is not assigned.
\<close>

definition assign_res :: "string \<Rightarrow> nat \<Rightarrow> (state \<Rightarrow> error + real) \<Rightarrow> stmt" where
  "assign_res v k e s =
     (case e s of Inl err \<Rightarrow> Inl (err, s) | Inr x \<Rightarrow> assign v k (\<lambda>_. x) s)"

definition assign_nan_res :: "string \<Rightarrow> nat \<Rightarrow> (state \<Rightarrow> error + fval) \<Rightarrow> stmt" where
  "assign_nan_res v k e s =
     (case e s of Inl err \<Rightarrow> Inl (err, s) | Inr x \<Rightarrow> assign_nan v k (\<lambda>_. x) s)"

text \<open>
  An assignment at a fixed index \<open>k\<close> of an array of \<open>n\<close> cells: IndexError when the
  array is too short.
\<close>

definition assign_in :: "nat \<Rightarrow> string \<Rightarrow> nat \<Rightarrow> (state \<Rightarrow> real) \<Rightarrow> stmt" where
  "assign_in n v k e = (if k < n then assign v k e else raise IndexError)"

definition assign_nan_in :: "nat \<Rightarrow> string \<Rightarrow> nat \<Rightarrow> (state \<Rightarrow> fval) \<Rightarrow> stmt" where
  "assign_nan_in n v k e = (if k < n then assign_nan v k e else raise IndexError)"

text \<open>
  A call \<^verbatim>\<open>f(..., a)\<close> whose argument \<open>a\<close> may raise when it is evaluated: the call
  raises then, before \<open>f\<close> runs.
\<close>

definition call_with :: "error + 'a \<Rightarrow> ('a \<Rightarrow> stmt) \<Rightarrow> stmt" where
  "call_with a f s = (case a of Inl err \<Rightarrow> Inl (err, s) | Inr x \<Rightarrow> f x s)"

definition skip :: stmt where
  "skip s = Inr s"

text \<open>A block of statements runs in order and stops at the first statement that raises.\<close>

fun seq :: "stmt list \<Rightarrow> stmt" where
  "seq [] s = Inr s"
| "seq (f # fs) s = (case f s of Inl es \<Rightarrow> Inl es | Inr t \<Rightarrow> seq fs t)"

text \<open>\<^verbatim>\<open>for i in xs: body(i)\<close>\<close>

fun for_loop :: "nat list \<Rightarrow> (nat \<Rightarrow> stmt) \<Rightarrow> stmt" where
  "for_loop [] body s = Inr s"
| "for_loop (i # xs) body s =
     (case body i s of Inl es \<Rightarrow> Inl es | Inr t \<Rightarrow> for_loop xs body t)"

text \<open>
  Reading \<^verbatim>\<open>a[k]\<close> from a numpy array of length \<open>n\<close> at a computed integer index: a
  negative index counts from the end, anything else out of range raises IndexError.
\<close>

definition np_get :: "nat \<Rightarrow> (nat \<Rightarrow> 'a) \<Rightarrow> int \<Rightarrow> error + 'a" where
  "np_get n a k =
     (if 0 \<le> k \<and> k < int n then Inr (a (nat k))
      else if - int n \<le> k \<and> k < 0 then Inr (a (nat (int n + k)))
      else Inl IndexError)"

text \<open>
  Reading \<^verbatim>\<open>df.at[k, col]\<close> from a data frame with the default row labels 0 .. n-1:
  the label is looked up as it is, so a label that is not a row raises KeyError.
\<close>

definition df_at :: "(string \<Rightarrow> 'a) list \<Rightarrow> int \<Rightarrow> string \<Rightarrow> error + 'a" where
  "df_at rows k col =
     (if 0 \<le> k \<and> k < int (length rows) then Inr ((rows ! nat k) col) else Inl KeyError)"

text \<open>
  What a statement leaves alone. \<open>cell_of s c\<close> is the content of the cell \<open>c\<close>, in all four
  kinds at once. \<open>frames W f\<close>: from any state, \<open>f\<close> logs a prefix \<open>W1\<close> of the cells \<open>W\<close>
  and every cell outside \<open>W1\<close> is as before, whether \<open>f\<close> returns or raises; and when
  \<open>f\<close> returns it has logged all of \<open>W\<close>.
\<close>

definition cell_of :: "state \<Rightarrow> cell \<Rightarrow> real \<times> fval \<times> int \<times> dayflag" where
  "cell_of s c = (arr s (fst c) (snd c), arr_nan s (fst c) (snd c),
                  arr_int s (fst c) (snd c), arr_flag s (fst c) (snd c))"

definition frames :: "cell list \<Rightarrow> stmt \<Rightarrow> bool" where
  "frames W f \<longleftrightarrow>
     (\<forall>s. \<exists>W1 W2. W = W1 @ W2
        \<and> written (final_state (f s)) = written s @ W1
        \<and> (\<forall>c. c \<notin> set W1 \<longrightarrow> cell_of (final_state (f s)) c = cell_of s c)
        \<and> (\<forall>s'. f s = Inr s' \<longrightarrow> W2 = []))"

section \<open>The environment of the simulation\<close>

text \<open>
  What the loop reads and never writes: the configuration, the input tables, and the code
  of the package that is not part of the files verified here (\<^verbatim>\<open>loone.utils\<close>:
  \<^verbatim>\<open>lo_functions\<close>, \<^verbatim>\<open>dec_tree_functions\<close>, \<^verbatim>\<open>stg_sto_ar\<close>, \<^verbatim>\<open>replicate\<close>). A call
  \<^verbatim>\<open>lo_functions.f(a, b)\<close> is \<open>lo_functions p ''f'' [a, b]\<close>: an unknown function of the
  arguments it is given (\<open>T t\<close> is the input table named \<open>t\<close>). \<^verbatim>\<open>lo_functions.PlsDay\<close>
  is kept apart because its result is used as an array index.

  \<open>df p t c k\<close> is \<^verbatim>\<open>t.at[k, c]\<close> for an input table \<open>t\<close>: the input tables are taken to
  hold every row the loop asks for. The pulse table, whose row is computed from the state,
  is a list of rows and its lookup can fail.

  \<^verbatim>\<open>tp_lake_s\<close> and \<^verbatim>\<open>s77_dv\<close> are the two parameters of \<^verbatim>\<open>LOONE_Q\<close> that it hands on
  to a function of the loop. Its other parameters \<^verbatim>\<open>p1\<close>, \<^verbatim>\<open>p2\<close> and \<^verbatim>\<open>s308_dv\<close> are
  handed on to none, and the functions of the loop that name them, like the one that names
  \<^verbatim>\<open>tp_lake_s\<close> without receiving it, find them unbound. So does \<^verbatim>\<open>LOONE_Q\<close> itself with
  \<^verbatim>\<open>start_storage\<close>, which nothing binds.
\<close>

datatype arg = R real | I int | F fval | D dayflag | T string

record env =
  n_rows :: nat
  config :: "string \<Rightarrow> real"
  schedule :: string
  startdate :: date
  begdateCS :: date
  lo_functions :: "string \<Rightarrow> arg list \<Rightarrow> real"
  lo_functions_PlsDay :: "arg list \<Rightarrow> int"
  dec_tree_functions :: "string \<Rightarrow> arg list \<Rightarrow> real"
  stg_sto_ar :: "string \<Rightarrow> arg list \<Rightarrow> real"
  replicate_fn :: "arg list \<Rightarrow> real"
  df :: "string \<Rightarrow> string \<Rightarrow> nat \<Rightarrow> real"
  date_range_5 :: "nat \<Rightarrow> date"
  date_range_6 :: "nat \<Rightarrow> date"
  CE_SLE_turns :: "string \<Rightarrow> real \<Rightarrow> real"
  Pulses :: "(string \<Rightarrow> real) list"
  Estuary_needs_water :: "nat \<Rightarrow> bool"
  Targ_Stg_df :: "real \<Rightarrow> nat \<Rightarrow> real"
  tm_yday :: "date \<Rightarrow> int"
  vlookup1_c :: "nat \<Rightarrow> real"
  vlookup2_c :: "nat \<Rightarrow> real"
  storage_deviation :: "nat \<Rightarrow> real"
  tp_lake_s :: "nat \<Rightarrow> real"
  s77_dv :: "int \<Rightarrow> real"

text \<open>\<^verbatim>\<open>lo_model = pd.DataFrame(date_range_6, columns=["date"])\<close>\<close>

definition lo_model_date :: "env \<Rightarrow> nat \<Rightarrow> date" where
  "lo_model_date p k = date_range_6 p k"

text \<open>\<^verbatim>\<open>_determine_seasons\<close>: the season of a month, and the two columns built from it.\<close>

definition Season_of_month :: "int \<Rightarrow> real" where
  "Season_of_month m =
     (if 2 < m \<and> m < 6 then 2
      else if 5 < m \<and> m < 8 then 3
      else if 7 < m \<and> m < 11 then 4
      else 1)"

definition determine_seasons :: "env \<Rightarrow> stmt" where
  "determine_seasons p =
     for_loop [0 ..< n_rows p - 1] (\<lambda>i. seq [
       assign ''Daily_Seasons'' i (\<lambda>s. Season_of_month (month (date_range_5 p i))),
       assign ''Mon'' i (\<lambda>s. real_of_int (month (date_range_5 p i)))])"

definition seasons_Season :: "env \<Rightarrow> nat \<Rightarrow> real" where
  "seasons_Season p k = Season_of_month (month (date_range_5 p k))"

definition seasons_Month :: "env \<Rightarrow> nat \<Rightarrow> real" where
  "seasons_Month p k = real_of_int (month (date_range_5 p k))"

text \<open>\<^verbatim>\<open>_create_dectree_df\<close>\<close>

definition dec_tree_df_Zone_B_MetFcast :: "env \<Rightarrow> nat \<Rightarrow> real" where
  "dec_tree_df_Zone_B_MetFcast p k = df p ''tc_lonino_df'' ''LONINO_Seasonal_Classes'' k"

text \<open>\<^verbatim>\<open>_calculate_late_dry_season\<close>: the two columns of the adaptive-protocol table.\<close>

definition Late_Dry_Season :: "env \<Rightarrow> nat \<Rightarrow> bool" where
  "Late_Dry_Season p k = (3 < month (date_range_5 p k) \<and> month (date_range_5 p k) < 6)"

definition Tributary_Hydrologic_Condition :: "env \<Rightarrow> nat \<Rightarrow> real" where
  "Tributary_Hydrologic_Condition p k = df p ''tc_lonino_df'' ''Tributary_Condition'' k"

text \<open>
  \<^verbatim>\<open>_calculate_pulse_averages\<close>: the mean of a column of the pulse table, not a number
  when the table has no row.
\<close>

definition column_mean :: "(string \<Rightarrow> real) list \<Rightarrow> string \<Rightarrow> fval" where
  "column_mean rows col =
     (if rows = [] then NaN else Fl (sum_list (map (\<lambda>r. r col) rows) / real (length rows)))"

definition s80avg_l1 :: "env \<Rightarrow> fval" where
  "s80avg_l1 p = column_mean (Pulses p) ''S-80_L1_LORS20082023''"

definition s80avg_l2 :: "env \<Rightarrow> fval" where
  "s80avg_l2 p = column_mean (Pulses p) ''S-80_L2_LORS20082023''"

definition s80avg_l3 :: "env \<Rightarrow> fval" where
  "s80avg_l3 p = column_mean (Pulses p) ''S-80_L3_LORS20082023''"

definition s77avg_l1 :: "env \<Rightarrow> fval" where
  "s77avg_l1 p = column_mean (Pulses p) ''S-77_L1_LORS20082023''"

definition s77avg_l2 :: "env \<Rightarrow> fval" where
  "s77avg_l2 p = column_mean (Pulses p) ''S-77_L2_LORS20082023''"

definition s77avg_l3 :: "env \<Rightarrow> fval" where
  "s77avg_l3 p = column_mean (Pulses p) ''S-77_L3_LORS20082023''"

text \<open>The constants that \<^verbatim>\<open>LOONE_Q\<close> binds before the loop.\<close>

definition outlet1_baseflow :: real where
  "outlet1_baseflow = 450"

definition outlet2_baseflow :: "env \<Rightarrow> real" where
  "outlet2_baseflow p = df p ''S80_RegRelRates'' ''Zone_D0'' 0"

definition choose_1 :: real where
  "choose_1 = 450"

section \<open>The steps of one day (LOONE\_Q.py)\<close>

text \<open>
  Each function of the source that works on day \<open>i\<close> is the block of its assignments.
  A local variable of the source is written out where it is used.
\<close>

definition calculate_wsm_zone :: "env \<Rightarrow> nat \<Rightarrow> stmt" where
  "calculate_wsm_zone p i =
     assign ''WSM_Zone'' (i + 2) (\<lambda>s. lo_functions p ''WSM_Zone''
       [R (arr s ''Lake_Stage'' (i + 1)),
        R (df p ''df_WSMs'' ''WSM4'' (i + 1)),
        R (df p ''df_WSMs'' ''WSM3'' (i + 1)),
        R (df p ''df_WSMs'' ''WSM2'' (i + 1)),
        R (df p ''df_WSMs'' ''WSM1'' (i + 1))])"

definition calculate_max_supply :: "env \<Rightarrow> nat \<Rightarrow> stmt" where
  "calculate_max_supply p i =
     assign ''Max_Supply'' (i + 2) (\<lambda>s. lo_functions p ''Max_Supply''
       [R (arr s ''WSM_Zone'' (i + 2)),
        R (df p ''water_demand'' ''Daily_demand'' i),
        R (config p ''z1_cutback''),
        R (config p ''z2_cutback''),
        R (config p ''z3_cutback''),
        R (config p ''z4_cutback'')])"

definition calculate_losa_supply :: "env \<Rightarrow> nat \<Rightarrow> stmt" where
  "calculate_losa_supply p i =
     assign ''LOSA_Supply'' (i + 2) (\<lambda>s. lo_functions p ''LOSA_Supply''
       [R (arr s ''WSM_Zone'' (i + 2)),
        R (df p ''lo_model'' ''LOSA_dmd_SFWMM'' (i + 2)),
        R (arr s ''Max_Supply'' (i + 2)),
        R (config p ''opt_losa_ws'')])"

definition calculate_ni_supply :: "env \<Rightarrow> nat \<Rightarrow> stmt" where
  "calculate_ni_supply p i =
     assign ''NI_Supply'' (i + 2) (\<lambda>s.
       df p ''lo_model'' ''Net_Inflow'' (i + 2) - arr s ''LOSA_Supply'' (i + 2))"

definition calculate_cutback :: "env \<Rightarrow> nat \<Rightarrow> stmt" where
  "calculate_cutback p i =
     assign ''Cut_back'' (i + 2) (\<lambda>s.
       df p ''lo_model'' ''LOSA_dmd_SFWMM'' (i + 2) - arr s ''LOSA_Supply'' (i + 2))"

text \<open>The division of the source, which this function guards, raises on a zero divisor.\<close>

definition py_div :: "real \<Rightarrow> real \<Rightarrow> error + real" where
  "py_div x y = (if y = 0 then Inl ZeroDivisionError else Inr (x / y))"

definition calculate_demand_not_supplied :: "env \<Rightarrow> nat \<Rightarrow> stmt" where
  "calculate_demand_not_supplied p i =
     assign_res ''Dem_N_Sup'' (i + 2) (\<lambda>s.
       if df p ''lo_model'' ''LOSA_dmd_SFWMM'' (i + 2) = 0 then Inr 0
       else bind_res
              (py_div (arr s ''Cut_back'' (i + 2)) (df p ''lo_model'' ''LOSA_dmd_SFWMM'' (i + 2)))
              (\<lambda>q. Inr (q * 100)))"

definition calculate_initial_zone_code_and_lo_zone :: "env \<Rightarrow> stmt" where
  "calculate_initial_zone_code_and_lo_zone p = seq [
     assign_in (n_rows p) ''Zone_Code'' 0 (\<lambda>s. lo_functions p ''Zone_Code''
       [R (arr s ''Lake_Stage'' 0),
        R (df p ''df_WSMs'' ''A'' 0),
        R (df p ''df_WSMs'' ''B'' 0),
        R (df p ''df_WSMs'' ''C'' 0),
        R (df p ''df_WSMs'' ''D3'' 0),
        R (df p ''df_WSMs'' ''D2'' 0),
        R (df p ''df_WSMs'' ''D1'' 0),
        R (df p ''df_WSMs'' ''D0'' 0),
        R (df p ''df_WSMs'' ''WSM1'' 0)]),
     assign_in (n_rows p) ''LO_Zone'' 0 (\<lambda>s.
       lo_functions p ''LO_Zone'' [R (arr s ''Zone_Code'' 0)])]"

definition calculate_zone_code :: "env \<Rightarrow> nat \<Rightarrow> stmt" where
  "calculate_zone_code p i =
     assign ''Zone_Code'' (i + 1) (\<lambda>s. lo_functions p ''Zone_Code''
       [R (arr s ''Lake_Stage'' (i + 1)),
        R (df p ''df_WSMs'' ''A'' (i + 1)),
        R (df p ''df_WSMs'' ''B'' (i + 1)),
        R (df p ''df_WSMs'' ''C'' (i + 1)),
        R (df p ''df_WSMs'' ''D3'' (i + 1)),
        R (df p ''df_WSMs'' ''D2'' (i + 1)),
        R (df p ''df_WSMs'' ''D1'' (i + 1)),
        R (df p ''df_WSMs'' ''D0'' (i + 1)),
        R (df p ''df_WSMs'' ''WSM1'' (i + 1))])"

definition generate_zone_column :: "env \<Rightarrow> nat \<Rightarrow> stmt" where
  "generate_zone_column p i =
     assign ''LO_Zone'' (i + 1) (\<lambda>s.
       lo_functions p ''LO_Zone'' [R (arr s ''Zone_Code'' (i + 1))])"

definition calculate_decision_tree_variables :: "env \<Rightarrow> nat \<Rightarrow> stmt" where
  "calculate_decision_tree_variables p i = seq [
     assign ''Zone_D_Trib'' i (\<lambda>s. dec_tree_functions p ''Zone_D_Trib''
       [R (df p ''tc_lonino_df'' ''Tributary_Condition'' i),
        R (config p ''opt_new_tree'')]),
     assign ''Zone_D_stage'' i (\<lambda>s. dec_tree_functions p ''Zone_D_stage''
       [R (arr s ''Lake_Stage'' (i + 1)), R (df p ''df_WSMs'' ''C-b'' i)]),
     assign ''Zone_D_Seas'' i (\<lambda>s. dec_tree_functions p ''Zone_D_Seas''
       [R (df p ''tc_lonino_df'' ''LONINO_Seasonal_Classes'' i),
        R (arr s ''Zone_D_Trib'' i),
        R (config p ''opt_new_tree'')]),
     assign ''Zone_D_MSeas'' i (\<lambda>s. dec_tree_functions p ''Zone_D_MSeas''
       [R (df p ''tc_lonino_df'' ''LONINO_MultiSeasonal_Classes'' i)]),
     assign ''Zone_D_Branch_Code'' i (\<lambda>s.
         arr s ''Zone_D_Trib'' i * 1000
       + arr s ''Zone_D_stage'' i * 100
       + arr s ''Zone_D_Seas'' i * 10
       + arr s ''Zone_D_MSeas'' i * 1),
     assign ''Zone_D_Rel_Code'' i (\<lambda>s. dec_tree_functions p ''Zone_D_Rel_Code''
       [R (arr s ''Zone_D_Branch_Code'' i), R (config p ''opt_dec_tree'')]),
     assign ''Zone_C_Trib'' i (\<lambda>s. dec_tree_functions p ''Zone_C_Trib''
       [R (df p ''tc_lonino_df'' ''Tributary_Condition'' i),
        R (config p ''opt_new_tree'')]),
     assign ''Zone_C_Seas'' i (\<lambda>s. dec_tree_functions p ''Zone_C_Seas''
       [R (df p ''tc_lonino_df'' ''LONINO_Seasonal_Classes'' i),
        R (config p ''opt_new_tree'')]),
     assign ''Zone_C_MSeas'' i (\<lambda>s. dec_tree_functions p ''Zone_C_MSeas''
       [R (df p ''tc_lonino_df'' ''LONINO_MultiSeasonal_Classes'' i)]),
     assign ''Zone_C_MetFcast'' i (\<lambda>s. dec_tree_functions p ''Zone_C_MetFcast''
       [R (arr s ''Zone_C_Seas'' i),
        R (df p ''tc_lonino_df'' ''LONINO_Seasonal_Classes'' i),
        R (config p ''zone_c_met_fcast_indicator'')]),
     assign ''Zone_C_Branch_Code'' i (\<lambda>s.
         arr s ''Zone_C_Trib'' i * 1000
       + arr s ''Zone_C_MetFcast'' i * 100
       + arr s ''Zone_C_Seas'' i * 10
       + arr s ''Zone_C_MSeas'' i * 1),
     assign ''Zone_C_Rel_Code'' i (\<lambda>s. dec_tree_functions p ''Zone_C_Rel_Code''
       [R (arr s ''Zone_C_Branch_Code'' i), R (config p ''opt_dec_tree'')]),
     assign ''Zone_B_Trib'' i (\<lambda>s. dec_tree_functions p ''Zone_B_Trib''
       [R (df p ''tc_lonino_df'' ''Tributary_Condition'' i),
        R (config p ''opt_new_tree'')]),
     assign ''Zone_B_Stage'' i (\<lambda>s. dec_tree_functions p ''Zone_B_Stage''
       [R (arr s ''Lake_Stage'' (i + 1)), R (seasons_Season p i)]),
     assign ''Zone_B_Seas'' i (\<lambda>s. dec_tree_functions p ''Zone_B_Seas''
       [R (df p ''tc_lonino_df'' ''LONINO_Seasonal_Classes'' i)]),
     assign ''Zone_B_Branch_Code'' i (\<lambda>s.
         arr s ''Zone_B_Trib'' i * 1000
       + arr s ''Zone_B_Stage'' i * 100
       + dec_tree_df_Zone_B_MetFcast p i * 10
       + arr s ''Zone_B_Seas'' i * 1),
     assign ''Zone_B_Rel_Code'' i (\<lambda>s. dec_tree_functions p ''Zone_B_Rel_Code''
       [R (arr s ''Zone_B_Branch_Code'' i), R (config p ''opt_dec_tree'')])]"

definition calculate_release_levels :: "env \<Rightarrow> nat \<Rightarrow> stmt" where
  "calculate_release_levels p i = seq [
     assign_nan ''DecTree_Relslevel'' (i + 2) (\<lambda>s. Fl (lo_functions p ''DecTree_Relslevel''
       [R (arr s ''Zone_Code'' (i + 1)),
        R (arr s ''Zone_D_Rel_Code'' i),
        R (arr s ''Zone_C_Rel_Code'' i),
        R (arr s ''Zone_B_Rel_Code'' i)])),
     (if i \<ge> 3 then
        assign_flag ''DayFlags'' i (\<lambda>s.
          if month (startdate p) = month (lo_model_date p i)
             \<and> day (startdate p) = day (lo_model_date p i)
             \<and> (config p ''cs_flag'' = 0 \<or> year (startdate p) = year (lo_model_date p i))
          then SimDay1
          else OnDate (lo_model_date p i))
      else skip),
     assign_int ''PlsDay'' (i + 2) (\<lambda>s. lo_functions_PlsDay p
       [D (arr_flag s ''DayFlags'' (i + 2)),
        F (arr_nan s ''DecTree_Relslevel'' (i + 2)),
        R (config p ''pls_day_switch'')]),
     assign ''Release_Level'' (i + 2) (\<lambda>s. lo_functions p ''release_level''
       [R (arr s ''Release_Level'' (i + 1)),
        R (arr s ''Lake_Stage'' (i + 1)),
        R (df p ''tc_lonino_df'' ''Tributary_Condition'' i),
        I (arr_int s ''PlsDay'' (i + 2)),
        R (arr s ''Zone_Code'' (i + 1)),
        F (arr_nan s ''DecTree_Relslevel'' (i + 2)),
        R (config p ''max_qstg_trigger'')]),
     (if i \<ge> 6 then
        assign ''dh_7days'' (i + 1) (\<lambda>s.
          arr s ''Lake_Stage'' (i + 1) - arr s ''Lake_Stage'' (i - 6))
      else skip)]"

definition calculate_zone_codes :: "env \<Rightarrow> nat \<Rightarrow> stmt" where
  "calculate_zone_codes p i = seq [
     assign ''ZoneCodeminus1Code'' (i + 1) (\<lambda>s. lo_functions p ''ZoneCodeminus1Code''
       [R (arr s ''Zone_Code'' (i + 1)),
        R (df p ''df_WSMs'' ''WSM1'' (i + 1)),
        R (df p ''df_WSMs'' ''D0'' (i + 1)),
        R (df p ''df_WSMs'' ''D1'' (i + 1)),
        R (df p ''df_WSMs'' ''D2'' (i + 1)),
        R (df p ''df_WSMs'' ''D3'' (i + 1)),
        R (df p ''df_WSMs'' ''C'' (i + 1)),
        R (df p ''df_WSMs'' ''B'' (i + 1)),
        R (df p ''df_WSMs'' ''A'' (i + 1))]),
     assign ''ZoneCodeCode'' (i + 1) (\<lambda>s. lo_functions p ''ZoneCodeCode''
       [R (arr s ''Zone_Code'' (i + 1)),
        R (df p ''df_WSMs'' ''WSM1'' (i + 1)),
        R (df p ''df_WSMs'' ''D0'' (i + 1)),
        R (df p ''df_WSMs'' ''D1'' (i + 1)),
        R (df p ''df_WSMs'' ''D2'' (i + 1)),
        R (df p ''df_WSMs'' ''D3'' (i + 1)),
        R (df p ''df_WSMs'' ''C'' (i + 1)),
        R (df p ''df_WSMs'' ''B'' (i + 1)),
        R (df p ''df_WSMs'' ''A'' (i + 1))]),
     assign ''Fraction_of_Zone_height'' (i + 1) (\<lambda>s.
       lo_functions p ''Fraction_of_Zone_height''
       [R (arr s ''Zone_Code'' (i + 1)),
        R (arr s ''Lake_Stage'' (i + 1)),
        R (arr s ''ZoneCodeminus1Code'' (i + 1)),
        R (arr s ''ZoneCodeCode'' (i + 1))])]"

definition calculate_release_level_codes :: "env \<Rightarrow> nat \<Rightarrow> stmt" where
  "calculate_release_level_codes p i = seq [
     assign ''ReLevelCode_1'' (i + 2) (\<lambda>s. lo_functions p ''ReLevelCode_1''
       [R (arr s ''Release_Level'' (i + 2)),
        R (config p ''dstar_d1''),
        R (config p ''dstar_d2''),
        R (config p ''dstar_d3''),
        R (config p ''dstar_c''),
        R (config p ''dstar_b'')]),
     assign ''ReLevelCode_2'' (i + 2) (\<lambda>s. lo_functions p ''ReLevelCode_2''
       [R (arr s ''Release_Level'' (i + 2)),
        R (config p ''astar_d1''),
        R (config p ''astar_d2''),
        R (config p ''astar_d3''),
        R (config p ''astar_c''),
        R (config p ''astar_b'')]),
     assign ''ReLevelCode_3_S80'' (i + 2) (\<lambda>s. lo_functions p ''ReLevelCode_3_S80''
       [R (arr s ''Release_Level'' (i + 2)),
        R (config p ''bstar_s80_d1''),
        R (config p ''bstar_s80_d2''),
        R (config p ''bstar_s80_d3''),
        R (config p ''bstar_s80_c''),
        R (config p ''bstar_s80_b'')])]"

definition calculate_relevel_code_3_s77 :: "env \<Rightarrow> nat \<Rightarrow> stmt" where
  "calculate_relevel_code_3_s77 p i =
     assign ''ReLevelCode_3_S77'' (i + 2) (\<lambda>s. lo_functions p ''ReLevelCode_3_S77''
       [R (arr s ''Release_Level'' (i + 2)),
        R (config p ''bstar_s77_d1''),
        R (config p ''bstar_s77_d2''),
        R (config p ''bstar_s77_d3''),
        R (config p ''bstar_s77_c''),
        R (config p ''bstar_s77_b'')])"

text \<open>
  The row of the pulse table for a pulse day, as the source computes it at each of its
  six lookups: \<^verbatim>\<open>PlsDay - 1 if PlsDay - 1 >= 0 else len(data.Pulses) - 1\<close>.
\<close>

definition pulse_row :: "env \<Rightarrow> int \<Rightarrow> int" where
  "pulse_row p PlsDay_v =
     (if PlsDay_v - 1 \<ge> 0 then PlsDay_v - 1 else int (length (Pulses p)) - 1)"

definition calculate_outlet2ds_mult :: "env \<Rightarrow> nat \<Rightarrow> stmt" where
  "calculate_outlet2ds_mult p i = seq [
     assign ''Outlet2DS_Mult'' (i + 2) (\<lambda>s. lo_functions p ''Outlet2DS_Mult''
       [R (seasons_Season p i),
        R (seasons_Month p i),
        R (arr s ''dh_7days'' (i + 1)),
        R (arr s ''ReLevelCode_1'' (i + 2)),
        R (arr s ''Fraction_of_Zone_height'' (i + 1)),
        R (arr s ''ReLevelCode_2'' (i + 2)),
        R (arr s ''ReLevelCode_3_S80'' (i + 2)),
        R (config p ''opt_qreg_mult'')]),
     assign_res ''Outlet2DS_Mult_2'' (i + 2) (\<lambda>s.
       bind_res (np_get (n_rows p) (arr s ''Outlet2DS_Mult'')
                   (int (i + 2) - arr_int s ''PlsDay'' (i + 2)))
         (\<lambda>m. Inr (lo_functions p ''Outlet2DS_Mult_2''
           [I (month (lo_model_date p (i + 2))),
            I (day (lo_model_date p (i + 2))),
            I (arr_int s ''PlsDay'' (i + 2)),
            R m,
            R (arr s ''Outlet2DS_Mult'' (i + 2)),
            R (config p ''opt_qreg_mult'')])))]"

definition calculate_outlet2dsrs :: "env \<Rightarrow> nat \<Rightarrow> stmt" where
  "calculate_outlet2dsrs p i = seq [
     assign_res ''Outlet2DSRS'' (i + 2) (\<lambda>s.
       bind_res (df_at (Pulses p) (pulse_row p (arr_int s ''PlsDay'' (i + 2)))
                   (''S-80_L1_'' @ schedule p)) (\<lambda>pulse_l1.
       bind_res (df_at (Pulses p) (pulse_row p (arr_int s ''PlsDay'' (i + 2)))
                   (''S-80_L2_'' @ schedule p)) (\<lambda>pulse_l2.
       bind_res (df_at (Pulses p) (pulse_row p (arr_int s ''PlsDay'' (i + 2)))
                   (''S-80_L3_'' @ schedule p)) (\<lambda>pulse_l3.
       Inr (lo_functions p ''Outlet2DSRS''
         [R (arr s ''Release_Level'' (i + 2)),
          R (df p ''S80_RegRelRates'' ''Zone_D1'' 0),
          F (s80avg_l1 p),
          R pulse_l1,
          R (arr s ''Outlet2DS_Mult_2'' (i + 2)),
          R (CE_SLE_turns p ''SLEturn''
               (real_of_int (year (lo_model_date p (i + 2))) - config p ''start_year'')),
          R (df p ''S80_RegRelRates'' ''Zone_D2'' 0),
          F (s80avg_l2 p),
          R pulse_l2,
          R (df p ''S80_RegRelRates'' ''Zone_D3'' 0),
          F (s80avg_l3 p),
          R pulse_l3,
          R (df p ''S80_RegRelRates'' ''Zone_C'' 0),
          R (df p ''S80_RegRelRates'' ''Zone_B'' 0),
          R (df p ''S80_RegRelRates'' ''Zone_A'' 0)]))))),
     assign ''Outlet2USRG1'' (i + 2) (\<lambda>s.
       max 0 (arr s ''Outlet2DSRS'' (i + 2) - df p ''lo_model'' ''C44RO'' (i + 2))),
     assign ''Sum_Outlet2USRG1'' (i + 2) (\<lambda>s. lo_functions p ''Sum_Outlet2USRG1''
       [I (day (lo_model_date p (i + 2))), R (arr s ''Outlet2USRG1'' (i + 2))])]"

definition calculate_outlet2dsbs :: "env \<Rightarrow> nat \<Rightarrow> stmt" where
  "calculate_outlet2dsbs p i =
     assign ''Outlet2DSBS'' (i + 2) (\<lambda>s. lo_functions p ''Outlet2DSBS''
       [R (arr s ''Release_Level'' (i + 2)),
        R (arr s ''Sum_Outlet2USRG1'' (i + 2)),
        R (vlookup1_c p i),
        R (outlet2_baseflow p),
        R (config p ''option_s80_baseflow'')])"

definition calculate_outlet2usbk :: "env \<Rightarrow> nat \<Rightarrow> stmt" where
  "calculate_outlet2usbk p i = seq [
     assign ''Outlet2USBK'' (i + 2) (\<lambda>s. lo_functions p ''Outlet2USBK''
       [R (arr s ''Lake_Stage'' (i + 1)),
        R (df p ''df_WSMs'' ''D1'' (i + 1)),
        R (arr s ''Outlet2USRG'' (i + 1)),
        R (df p ''lo_model'' ''C44RO'' (i + 2)),
        R (df p ''SFWMM_Daily_Outputs'' ''S308BK'' (i + 2)),
        R (config p ''opt_s308''),
        R (config p ''s308_bk_const''),
        R (config p ''s308_bk_thr'')]),
     assign ''ROeast'' (i + 2) (\<lambda>s.
       df p ''lo_model'' ''C44RO'' (i + 2) - arr s ''Outlet2USBK'' (i + 2)),
     assign ''Outlet2USBS'' (i + 2) (\<lambda>s. lo_functions p ''Outlet2USBS''
       [R (arr s ''Outlet2DSBS'' (i + 2)),
        R (arr s ''Outlet2USRG1'' (i + 2)),
        R (arr s ''ROeast'' (i + 2)),
        R (config p ''option_s80_baseflow'')]),
     assign ''Sum_Outlet2USBK'' (i + 2) (\<lambda>s. lo_functions p ''Sum_Outlet2USBK''
       [I (day (lo_model_date p (i + 2))), R (arr s ''Outlet2USBK'' (i + 2))])]"

text \<open>
  In the parametric mode (\<^verbatim>\<open>sim_type\<close> other than 0) the two functions below compare
  \<^verbatim>\<open>tp_lake_s[i]\<close> with \<^verbatim>\<open>p1\<close> and \<^verbatim>\<open>p2\<close>. \<^verbatim>\<open>_calculate_outlet2usrg_code\<close> receives
  none of \<^verbatim>\<open>tp_lake_s\<close>, \<^verbatim>\<open>p1\<close>, \<^verbatim>\<open>p2\<close>, \<^verbatim>\<open>s308_dv\<close>; \<^verbatim>\<open>_calculate_outlet1usreg\<close>
  receives \<^verbatim>\<open>tp_lake_s\<close> and \<^verbatim>\<open>s77_dv\<close> but neither \<^verbatim>\<open>p1\<close> nor \<^verbatim>\<open>p2\<close>. With a
  stage strictly between 8 and 18 the comparison is reached and raises NameError. This is
  \<^verbatim>\<open>LOONE_Q\<close> called as a function of its module; only when the module is run as a
  script does it bind these four names as globals before the call (to the command-line
  strings, or 0). \<^verbatim>\<open>start_storage\<close> is bound in neither case.
\<close>

definition calculate_outlet2usrg_code :: "env \<Rightarrow> nat \<Rightarrow> stmt" where
  "calculate_outlet2usrg_code p i = seq [
     assign ''Outlet2USRG_Code'' (i + 2) (\<lambda>s. lo_functions p ''Outlet2USRG_Code''
       [R (arr s ''Outlet2USRG1'' (i + 2)),
        R (arr s ''Outlet2USBS'' (i + 2)),
        R (df p ''SFWMM_Daily_Outputs'' ''S308RG'' (i + 2)),
        R (df p ''SFWMM_Daily_Outputs'' ''STEST'' (i + 2)),
        R (config p ''option_reg_s77_s308'')]),
     assign_res ''Outlet2USRG'' (i + 2) (\<lambda>s.
       if config p ''sim_type'' = 0 then
         Inr (lo_functions p ''Outlet2USRG''
           [R (arr s ''Outlet2USRG_Code'' (i + 2)),
            R (df p ''SFWMM_Daily_Outputs'' ''S308RG'' (i + 2)),
            R (df p ''SFWMM_Daily_Outputs'' ''STEST'' (i + 2)),
            R (config p ''opt_s308''),
            R (config p ''s308_rg_const'')])
       else if arr s ''Lake_Stage'' (i + 1) \<ge> 18 then Inr 7200
       else if arr s ''Lake_Stage'' (i + 1) \<le> 8 then Inr 0
       else
         bind_res (unbound_name ''tp_lake_s'') (\<lambda>tp_lake_s_v.
         bind_res (unbound_name ''p1'') (\<lambda>p1_v.
           if (tp_lake_s_v :: nat \<Rightarrow> real) i \<le> p1_v
              \<and> month (date_range_6 p (i + 2)) \<in> set [1, 2, 3, 4, 11, 12]
           then bind_res (unbound_name ''s308_dv'') (\<lambda>s308_dv_v.
                  Inr ((s308_dv_v :: int \<Rightarrow> real) (month (date_range_6 p (i + 2)) - 1)))
           else
             bind_res (unbound_name ''p2'') (\<lambda>p2_v.
               if tp_lake_s_v i \<le> p2_v
                  \<and> month (date_range_6 p (i + 2)) \<in> set [5, 6, 7, 8, 9, 10]
               then bind_res (unbound_name ''s308_dv'') (\<lambda>s308_dv_v.
                      Inr ((s308_dv_v :: int \<Rightarrow> real) (month (date_range_6 p (i + 2)) - 1)))
               else Inr 0))))]"

definition calculate_outlet2ds :: "env \<Rightarrow> nat \<Rightarrow> stmt" where
  "calculate_outlet2ds p i =
     assign ''Outlet2DS'' (i + 2) (\<lambda>s. lo_functions p ''S80''
       [R (arr s ''ROeast'' (i + 2)),
        R (arr s ''Outlet2USRG'' (i + 2)),
        R (df p ''SFWMM_Daily_Outputs'' ''S80'' (i + 2)),
        R (config p ''s80_const'')])"

definition calculate_outlet1us_mult :: "env \<Rightarrow> nat \<Rightarrow> stmt" where
  "calculate_outlet1us_mult p i =
     assign ''Outlet1US_Mult'' (i + 2) (\<lambda>s. lo_functions p ''Outlet1US_Mult''
       [R (seasons_Season p i),
        R (seasons_Month p i),
        R (arr s ''dh_7days'' (i + 1)),
        R (arr s ''ReLevelCode_1'' (i + 2)),
        R (arr s ''Fraction_of_Zone_height'' (i + 1)),
        R (arr s ''ReLevelCode_2'' (i + 2)),
        R (arr s ''ReLevelCode_3_S77'' (i + 2)),
        R (config p ''opt_qreg_mult'')])"

definition calculate_outlet1us_mult_2 :: "env \<Rightarrow> nat \<Rightarrow> stmt" where
  "calculate_outlet1us_mult_2 p i =
     assign_res ''Outlet1US_Mult_2'' (i + 2) (\<lambda>s.
       bind_res (np_get (n_rows p) (arr s ''Outlet1US_Mult'')
                   (int (i + 2) - arr_int s ''PlsDay'' (i + 2)))
         (\<lambda>m. Inr (lo_functions p ''Outlet1US_Mult_2''
           [I (month (lo_model_date p (i + 2))),
            I (day (lo_model_date p (i + 2))),
            I (arr_int s ''PlsDay'' (i + 2)),
            R m,
            R (arr s ''Outlet1US_Mult'' (i + 2)),
            R (config p ''opt_qreg_mult'')])))"

definition calculate_outlet1usrs :: "env \<Rightarrow> nat \<Rightarrow> stmt" where
  "calculate_outlet1usrs p i =
     assign_res ''Outlet1USRS'' (i + 2) (\<lambda>s.
       bind_res (df_at (Pulses p) (pulse_row p (arr_int s ''PlsDay'' (i + 2)))
                   (''S-77_L1_'' @ schedule p)) (\<lambda>pulse_l1.
       bind_res (df_at (Pulses p) (pulse_row p (arr_int s ''PlsDay'' (i + 2)))
                   (''S-77_L2_'' @ schedule p)) (\<lambda>pulse_l2.
       bind_res (df_at (Pulses p) (pulse_row p (arr_int s ''PlsDay'' (i + 2)))
                   (''S-77_L3_'' @ schedule p)) (\<lambda>pulse_l3.
       Inr (lo_functions p ''Outlet1USRS''
         [R (arr s ''Release_Level'' (i + 2)),
          R (df p ''S77_RegRelRates'' ''Zone_D1'' 0),
          F (s77avg_l1 p),
          R pulse_l1,
          R (arr s ''Outlet1US_Mult_2'' (i + 2)),
          R (df p ''lo_model'' ''C43RO'' (i + 2)),
          R (CE_SLE_turns p ''CEturn''
               (real_of_int (year (lo_model_date p (i + 2))) - config p ''start_year'')),
          R (df p ''S77_RegRelRates'' ''Zone_D2'' 0),
          F (s77avg_l2 p),
          R pulse_l2,
          R (arr s ''Zone_Code'' (i + 1)),
          R (df p ''S77_RegRelRates'' ''Zone_D3'' 0),
          F (s77avg_l3 p),
          R pulse_l3,
          R (df p ''S77_RegRelRates'' ''Zone_C'' 0),
          R (df p ''S77_RegRelRates'' ''Zone_B'' 0),
          R (df p ''S77_RegRelRates'' ''Zone_A'' 0),
          R (config p ''opt_outlet1_dsrg'')])))))"

definition calculate_sum_outlet1usrs :: "env \<Rightarrow> nat \<Rightarrow> stmt" where
  "calculate_sum_outlet1usrs p i =
     assign ''Sum_Outlet1USRS'' (i + 2) (\<lambda>s. lo_functions p ''Sum_Outlet1USRS''
       [I (day (lo_model_date p (i + 2))), R (arr s ''Outlet1USRS'' (i + 2))])"

definition calculate_outlet1usbk :: "env \<Rightarrow> nat \<Rightarrow> stmt" where
  "calculate_outlet1usbk p i =
     assign ''Outlet1USBK'' (i + 2) (\<lambda>s. lo_functions p ''Outlet1USBK''
       [R (arr s ''Lake_Stage'' (i + 1)),
        R (arr s ''Outlet1USRS'' (i + 2)),
        R (arr s ''Outlet1USBSAP'' (i + 1)),
        R (arr s ''Outlet1USEWS'' (i + 1)),
        R (df p ''lo_model'' ''C43RO'' (i + 2)),
        R (df p ''SFWMM_Daily_Outputs'' ''S77BK'' (i + 2)),
        R (config p ''outlet1_usbk_switch''),
        R (config p ''outlet1_usbk_threshold'')])"

definition calculate_rowest :: "env \<Rightarrow> nat \<Rightarrow> stmt" where
  "calculate_rowest p i =
     assign ''ROwest'' (i + 2) (\<lambda>s.
       df p ''lo_model'' ''C43RO'' (i + 2) - arr s ''Outlet1USBK'' (i + 2))"

definition calculate_outlet1dsbs :: "env \<Rightarrow> nat \<Rightarrow> stmt" where
  "calculate_outlet1dsbs p i =
     assign ''Outlet1DSBS'' (i + 2) (\<lambda>s. lo_functions p ''Outlet1DSBS''
       [R (arr s ''Release_Level'' (i + 2)),
        R (arr s ''Sum_Outlet1USRS'' (i + 2)),
        R (vlookup2_c p i),
        R outlet1_baseflow,
        R (config p ''option_s77_baseflow'')])"

definition calculate_outlet1usbs :: "env \<Rightarrow> nat \<Rightarrow> stmt" where
  "calculate_outlet1usbs p i =
     assign ''Outlet1USBS'' (i + 2) (\<lambda>s. lo_functions p ''Outlet1USBS''
       [R (arr s ''Outlet1DSBS'' (i + 2)),
        R (arr s ''Outlet1USRS'' (i + 2)),
        R (arr s ''ROwest'' (i + 2)),
        R (config p ''option_s77_baseflow'')])"

definition calculate_outlet1usbsap :: "env \<Rightarrow> nat \<Rightarrow> stmt" where
  "calculate_outlet1usbsap p i =
     assign ''Outlet1USBSAP'' (i + 2) (\<lambda>s. lo_functions p ''Outlet1USBSAP''
       [R (arr s ''Outlet1USBS'' (i + 2)),
        R (arr s ''Post_Ap_Baseflow'' i),
        R (config p ''opt_adap_prot'')])"

definition calculate_outlet1usews :: "env \<Rightarrow> nat \<Rightarrow> stmt" where
  "calculate_outlet1usews p i =
     assign ''Outlet1USEWS'' (i + 2) (\<lambda>s. lo_functions p ''Outlet1USEWS''
       [R (arr s ''Post_AP_EWS'' i),
        R (df p ''SFWMM_Daily_Outputs'' ''CAEST'' (i + 2)),
        R (config p ''outlet1_usews_switch''),
        R (config p ''opt_adap_prot'')])"

definition calculate_outlet1usreg :: "env \<Rightarrow> nat \<Rightarrow> stmt" where
  "calculate_outlet1usreg p i =
     assign_res ''Outlet1USREG'' (i + 2) (\<lambda>s.
       if config p ''sim_type'' = 0 then
         Inr (lo_functions p ''Outlet1USREG''
           [R (arr s ''Outlet1USRS'' (i + 2)),
            R (arr s ''Outlet1USBSAP'' (i + 2)),
            R (df p ''SFWMM_Daily_Outputs'' ''S77RG'' (i + 2)),
            R (config p ''outlet1_usreg_switch''),
            R (config p ''option_reg_s77_s308'')])
       else if arr s ''Lake_Stage'' (i + 1) \<ge> 18 then Inr 7800
       else if arr s ''Lake_Stage'' (i + 1) \<le> 8 then Inr 0
       else
         bind_res (unbound_name ''p1'') (\<lambda>p1_v.
           if tp_lake_s p i \<le> p1_v
              \<and> month (date_range_6 p (i + 2)) \<in> set [1, 2, 3, 4, 11, 12]
           then Inr (s77_dv p (month (date_range_6 p (i + 2)) - 1))
           else
             bind_res (unbound_name ''p2'') (\<lambda>p2_v.
               if tp_lake_s p i \<le> p2_v
                  \<and> month (date_range_6 p (i + 2)) \<in> set [5, 6, 7, 8, 9, 10]
               then Inr (s77_dv p (month (date_range_6 p (i + 2)) - 1))
               else Inr 0)))"

definition calculate_outlet1ds :: "env \<Rightarrow> nat \<Rightarrow> stmt" where
  "calculate_outlet1ds p i =
     assign ''Outlet1DS'' (i + 2) (\<lambda>s. lo_functions p ''Outlet1DS''
       [R (arr s ''Outlet1USREG'' (i + 2)),
        R (arr s ''Outlet1USEWS'' (i + 2)),
        R (arr s ''ROwest'' (i + 2)),
        R (df p ''SFWMM_Daily_Outputs'' ''S79'' (i + 2)),
        R (config p ''outlet1_ds_switch'')])"

definition calculate_tot_reg_ew :: "env \<Rightarrow> nat \<Rightarrow> stmt" where
  "calculate_tot_reg_ew p i =
     assign ''TotRegEW'' (i + 2) (\<lambda>s.
       (arr s ''Outlet1USREG'' (i + 2) + arr s ''Outlet2USRG'' (i + 2)) * 1.9835)"

definition calculate_choose_wca :: "env \<Rightarrow> nat \<Rightarrow> stmt" where
  "calculate_choose_wca p i = seq [
     assign ''Choose_WCA'' (i + 2) (\<lambda>s. lo_functions p ''Choose_WCA''
       [R (df p ''SFWMM_Daily_Outputs'' ''RegWCA'' (i + 2)),
        R (config p ''option_reg_wca''),
        R (config p ''constant_reg_wca'')]),
     assign ''RegWCA'' (i + 2) (\<lambda>s.
       min (config p ''max_cap_reg_wca'')
           (config p ''multiplier_reg_wca'' * arr s ''Choose_WCA'' (i + 2)))]"

definition calculate_choose_l8c51 :: "env \<Rightarrow> nat \<Rightarrow> stmt" where
  "calculate_choose_l8c51 p i = seq [
     assign ''Choose_L8C51'' (i + 2) (\<lambda>s. lo_functions p ''Choose_L8C51''
       [R (df p ''SFWMM_Daily_Outputs'' ''RegL8C51'' (i + 2)),
        R (config p ''option_reg_l8_c51''),
        R (config p ''constant_reg_l8_c51'')]),
     assign ''RegL8C51'' (i + 2) (\<lambda>s.
       min (config p ''max_cap_reg_l8_c51'')
           (config p ''multiplier_reg_l8_c51'' * arr s ''Choose_L8C51'' (i + 2)))]"

definition calculate_tot_reg_so :: "env \<Rightarrow> nat \<Rightarrow> stmt" where
  "calculate_tot_reg_so p i =
     assign ''TotRegSo'' (i + 2) (\<lambda>s.
       (arr s ''RegWCA'' (i + 2) + arr s ''RegL8C51'' (i + 2)) * 1.9835)"

definition calculate_stage2ar_and_stage2marsh :: "env \<Rightarrow> nat \<Rightarrow> stmt" where
  "calculate_stage2ar_and_stage2marsh p i = seq [
     assign ''Stage2ar'' (i + 2) (\<lambda>s.
       stg_sto_ar p ''stg2ar'' [R (arr s ''Lake_Stage'' (i + 1)), I 0]),
     assign ''Stage2marsh'' (i + 2) (\<lambda>s.
       stg_sto_ar p ''stg2mar'' [R (arr s ''Lake_Stage'' (i + 1)), I 0])]"

definition calculate_rf_and_et :: "env \<Rightarrow> nat \<Rightarrow> stmt" where
  "calculate_rf_and_et p i = seq [
     assign ''RF'' (i + 2) (\<lambda>s. df p ''RF_Vol'' ''RFVol_acft'' (i + 2)),
     assign ''ET'' (i + 2) (\<lambda>s. lo_functions p ''ET''
       [R (df p ''SFWMM_Daily_Outputs'' ''et_dry'' (i + 2)),
        R (arr s ''Stage2ar'' (i + 2)),
        R (df p ''SFWMM_Daily_Outputs'' ''et_litoral'' (i + 2)),
        R (arr s ''Stage2marsh'' (i + 2)),
        R (df p ''SFWMM_Daily_Outputs'' ''et_open'' (i + 2)),
        R (df p ''ET_Vol'' ''ETVol_acft'' (i + 2)),
        R (config p ''et_switch'')])]"

definition calculate_wsa :: "env \<Rightarrow> nat \<Rightarrow> stmt" where
  "calculate_wsa p i = seq [
     assign ''Choose_WSA_1'' (i + 2) (\<lambda>s. lo_functions p ''Choose_WSA_1''
       [R (df p ''df_WSMs'' ''WSM1'' (i + 2)),
        R (config p ''opt_wsa''),
        R (config p ''wsa_trig2''),
        R (config p ''wsa_off2'')]),
     assign ''Choose_WSA_2'' (i + 2) (\<lambda>s. lo_functions p ''Choose_WSA_2''
       [R (df p ''df_WSMs'' ''WSM1'' (i + 2)),
        R (config p ''opt_wsa''),
        R (config p ''wsa_trig1''),
        R (config p ''wsa_off1'')]),
     assign ''WSA_MIA'' (i + 2) (\<lambda>s. lo_functions p ''WSA_MIA''
       [R (df p ''wca_stages_df'' ''Are WCA stages too low?'' i),
        R (df p ''tc_lonino_df'' ''LONINO_Seasonal_Classes'' i),
        R (arr s ''Lake_Stage'' (i + 1)),
        R (arr s ''Choose_WSA_1'' (i + 2)),
        R (df p ''EAA_MIA_RUNOFF'' ''MIA'' i),
        R (df p ''EAA_MIA_RUNOFF'' ''S3PMP'' i),
        R (arr s ''Choose_WSA_2'' (i + 2)),
        R (config p ''opt_wsa''),
        R (config p ''wsa_thc''),
        R (config p ''mia_cap2''),
        R (config p ''mia_cap1'')]),
     assign ''WSA_NNR'' (i + 2) (\<lambda>s. lo_functions p ''WSA_NNR''
       [R (df p ''wca_stages_df'' ''Are WCA stages too low?'' i),
        R (df p ''tc_lonino_df'' ''LONINO_Seasonal_Classes'' i),
        R (arr s ''Lake_Stage'' (i + 1)),
        R (arr s ''Choose_WSA_1'' (i + 2)),
        R (df p ''EAA_MIA_RUNOFF'' ''NNR'' i),
        R (df p ''EAA_MIA_RUNOFF'' ''S2PMP'' i),
        R (arr s ''Choose_WSA_2'' (i + 2)),
        R (config p ''opt_wsa''),
        R (config p ''wsa_thc''),
        R (config p ''nnr_cap2''),
        R (config p ''nnr_cap1'')])]"

text \<open>
  \<^verbatim>\<open>_calculate_dsto_and_storage\<close> receives the start storage as its last parameter.
\<close>

definition calculate_dsto_and_storage :: "env \<Rightarrow> real \<Rightarrow> nat \<Rightarrow> stmt" where
  "calculate_dsto_and_storage p start_storage i = seq [
     assign ''DSto'' (i + 2) (\<lambda>s.
         arr s ''NI_Supply'' (i + 2)
       + arr s ''RF'' (i + 2)
       - arr s ''ET'' (i + 2)
       + 1.9835
         * (  arr s ''Outlet2USBK'' (i + 2)
            + arr s ''Outlet1USBK'' (i + 2)
            + arr s ''WSA_MIA'' (i + 2)
            + arr s ''WSA_NNR'' (i + 2)
            - arr s ''Outlet1USEWS'' (i + 2))
       - arr s ''TotRegEW'' (i + 2)
       - arr s ''TotRegSo'' (i + 2)
       + storage_deviation p (i + 2)),
     assign ''Storage'' (i + 2) (\<lambda>s. lo_functions p ''Storage''
       [D (arr_flag s ''DayFlags'' (i + 2)),
        R (arr s ''Storage'' i),
        R start_storage,
        R (arr s ''Storage'' (i + 1)),
        R (arr s ''DSto'' (i + 2))])]"

definition calculate_lake_stage :: "env \<Rightarrow> nat \<Rightarrow> stmt" where
  "calculate_lake_stage p i =
     assign ''Lake_Stage'' (i + 2) (\<lambda>s. lo_functions p ''Lake_Stage''
       [R (stg_sto_ar p ''stg2sto'' [R (arr s ''Storage'' (i + 2)), I 1]),
        R (df p ''SFWMM_Daily_Outputs'' ''EOD Stg(ft,NGVD)'' (i + 2)),
        R (config p ''option_stage'')])"

text \<open>
  \<^verbatim>\<open>_update_lo_model\<close> replaces eight columns of the data frame by the current arrays.
  It assigns no cell of a model-variable array.
\<close>

definition update_lo_model :: stmt where
  "update_lo_model s =
     Inr (s\<lparr>lo_model_out := (lo_model_out s)
            (''Cutback'' := arr s ''Cut_back'',
             ''Stage'' := arr s ''Lake_Stage'',
             ''Storage'' := arr s ''Storage'',
             ''S77_Q'' := arr s ''Outlet1USREG'',
             ''S308_Q'' := arr s ''Outlet2USRG'',
             ''S77EW'' := arr s ''Outlet1USEWS'',
             ''TotRegEW'' := arr s ''TotRegEW'',
             ''TotRegSo'' := arr s ''TotRegSo'')\<rparr>)"

section \<open>The rule chain of one day (THC\_Class.py)\<close>

text \<open>
  \<^verbatim>\<open>THC_Class\<close> receives the arrays it works on as parameters. The model names each array
  as the caller \<^verbatim>\<open>_define_thc_class_normal_or_above\<close> binds it: the parameters
  \<^verbatim>\<open>S77RS_AP\<close>, \<^verbatim>\<open>S77BS_AP\<close>, \<^verbatim>\<open>S77RS_Pre_AP_S77_Baseflow\<close> and
  \<^verbatim>\<open>S77RSplusPreAPS77bsf\<close> are the arrays \<^verbatim>\<open>Outlet1USRS_AP\<close>, \<^verbatim>\<open>Outlet1USBS_AP\<close>,
  \<^verbatim>\<open>Outlet1USRS_Pre_AP_S77_Baseflow\<close> and \<^verbatim>\<open>Outlet1USRSplusPreAPS77bsf\<close>; \<^verbatim>\<open>Stage_LO\<close>,
  \<^verbatim>\<open>S77RS\<close> and \<^verbatim>\<open>S77BS\<close> are \<^verbatim>\<open>Lake_Stage\<close>, \<^verbatim>\<open>Outlet1USRS\<close> and \<^verbatim>\<open>Outlet1USBS\<close>;
  every other array parameter is the model variable of the same name. The caller passes
  the configuration first, to the copy of the function in \<^verbatim>\<open>loone.utils\<close>; the file
  modelled here reads the same options from the module \<^verbatim>\<open>Pre_defined_Variables\<close>, and
  they are entries of the configuration in the model.
  The function returns the two cells \<^verbatim>\<open>Post_AP_EWS[i]\<close> and \<^verbatim>\<open>Post_Ap_Baseflow[i]\<close>,
  which the caller reads from the state.
\<close>

definition THC_Class :: "env \<Rightarrow> nat \<Rightarrow> stmt" where
  "THC_Class p i = seq [
     assign ''THC_Class_normal_or_above'' i (\<lambda>s. of_bool (THC_Class_normal_or_above
       (Tributary_Hydrologic_Condition p i) (config p ''THC_threshold''))),
     assign ''Lake_O_Stage_AP'' i (\<lambda>s. arr s ''Lake_Stage'' (i + 1)),
     assign ''Lake_O_Schedule_Zone'' i (\<lambda>s. arr s ''Zone_Code'' (i + 1)),
     assign ''LStgCorres'' i (\<lambda>s. LStgCorres
       (month (date_range_5 p i))
       (df p ''df_WSMs'' ''WSM1'' (i + 1))
       (Targ_Stg_df p (config p ''LowChance'') i)
       (config p ''Opt_LChance_line'')
       (config p ''LowChance'')),
     assign ''LowChance_Check'' i (\<lambda>s. of_bool (LowChance_Check
       (arr s ''Lake_O_Stage_AP'' i) (arr s ''LStgCorres'' i))),
     assign ''Outlet1USRS_AP'' i (\<lambda>s. arr s ''Outlet1USRS'' (i + 2)),
     assign ''Outlet1USBS_AP'' i (\<lambda>s. arr s ''Outlet1USBS'' (i + 2)),
     assign ''Outlet1USRS_Pre_AP_S77_Baseflow'' i (\<lambda>s.
       arr s ''Outlet1USRS_AP'' i + arr s ''Outlet1USBS_AP'' i),
     assign_nan_res ''Forecast_D_Sal'' i (\<lambda>s. Forecast_D_Sal (config p ''OptSalFcast'')),
     assign_nan_res ''n30d_mavg'' i (\<lambda>s. n30d_mavg (config p ''OptSalFcast'')),
     assign_res ''n30davgForecast'' i (\<lambda>s.
       bind_res (n30davgForecast
          (Estuary_needs_water p i)
          (map (arr_nan s ''n30d_mavg'') [i ..< min (i + 13) (n_rows p - 1)])
          (config p ''OptSalFcast'')
          (config p ''CE_SalThreshold''))
         (\<lambda>b. Inr (of_bool b))),
     assign ''LORS08_bf_rel'' i (\<lambda>s. of_bool (LORS08_bf_rel
       (arr s ''Outlet1USBS_AP'' i) (arr s ''n30davgForecast'' i = 1))),
     assign ''LDS_LC6_1'' i (\<lambda>s. of_bool (LDS_LC6_1
       (Late_Dry_Season p i)
       (arr s ''LowChance_Check'' i = 1)
       (config p ''Late_Dry_Season_Option''))),
     assign ''S_O'' i (\<lambda>s. S_O (arr s ''LDS_LC6_1'' i = 1) (arr s ''Outlet1USBS_AP'' i)),
     assign ''All_4'' i (\<lambda>s. of_bool (All_4
       (arr s ''LORS08_bf_rel'' i = 1) (arr s ''LDS_LC6_1'' i = 1))),
     assign ''Sabf'' i (\<lambda>s. of_bool (Sabf (arr s ''Lake_O_Schedule_Zone'' i))),
     assign ''Swbf'' i (\<lambda>s. of_bool (Swbf (arr s ''Lake_O_Schedule_Zone'' i))),
     assign ''Swbu'' i (\<lambda>s. of_bool (Swbu (arr s ''Lake_O_Schedule_Zone'' i))),
     assign ''All_4andStage'' i (\<lambda>s. of_bool (All_4andStage
       (arr s ''All_4'' i = 1) (arr s ''Sabf'' i = 1))),
     assign ''All_4andStagein'' i (\<lambda>s. of_bool (All_4andStagein
       (arr s ''All_4'' i = 1) (arr s ''Sabf'' i = 1))),
     assign ''P_AP_BF_Stg'' i (\<lambda>s. of_bool (P_AP_BF_Stg
       (arr s ''Lake_O_Schedule_Zone'' i) (arr s ''Outlet1USBS_AP'' i))),
     assign ''Logic_test_1'' i (\<lambda>s. of_bool (Logic_test_1
       (arr s ''All_4andStage'' i = 1)
       (arr s ''P_AP_BF_Stg'' i = 1)
       (config p ''Opt_NoAP_above_BF_SB''))),
     assign ''Post_Ap_Baseflow'' i (\<lambda>s. Post_Ap_Baseflow
       (arr s ''Logic_test_1'' i = 1)
       (arr s ''Outlet1USBS_AP'' i)
       (arr s ''All_4andStagein'' i = 1)
       choose_1),
     assign ''Outlet1USRSplusPreAPS77bsf'' i (\<lambda>s. of_bool (S77RSplusPreAPS77bsf
       (arr s ''Outlet1USRS_Pre_AP_S77_Baseflow'' i)
       (arr s ''Lake_O_Schedule_Zone'' i)
       (config p ''Opt_CEews_LOWSM''))),
     assign ''AndEstNeedsLakeWater'' i (\<lambda>s. of_bool (AndEstNeedsLakeWater
       (arr s ''n30davgForecast'' i = 1) (arr s ''Outlet1USRSplusPreAPS77bsf'' i = 1))),
     assign ''AndLowChance61stagelessth11'' i (\<lambda>s. of_bool (AndLowChance61stagelessth11
       (arr s ''LDS_LC6_1'' i = 1) (arr s ''AndEstNeedsLakeWater'' i = 1))),
     assign ''ATHCnora'' i (\<lambda>s. of_bool (ATHCnora
       (arr s ''AndLowChance61stagelessth11'' i = 1)
       (arr s ''THC_Class_normal_or_above'' i = 1)
       (Late_Dry_Season p i)
       (config p ''Opt_THCbypLateDS''))),
     assign ''Choose_PAPEWS_1'' i (\<lambda>s. Choose_PAPEWS_1
       (arr s ''WSM_Zone'' (i + 2))
       (config p ''APCB1'')
       (config p ''APCB2'')
       (config p ''APCB3'')
       (config p ''APCB4'')),
     assign_res ''Choose_PAPEWS_2'' i (\<lambda>s. Choose_PAPEWS_2
       (config p ''Opt_CEews_LOWSM'') (config p ''CalEst_ews'')),
     assign ''Post_AP_EWS'' i (\<lambda>s. Post_AP_EWS
       (arr s ''ATHCnora'' i = 1)
       (arr s ''WSM_Zone'' (i + 2))
       (arr s ''Choose_PAPEWS_1'' i)
       (arr s ''Choose_PAPEWS_2'' i)
       (config p ''CalEst_ews'')),
     assign ''Post_AP_Baseflow_EWS_cfs'' i (\<lambda>s.
       arr s ''Post_Ap_Baseflow'' i + arr s ''Post_AP_EWS'' i)]"

text \<open>
  \<^verbatim>\<open>_define_thc_class_normal_or_above\<close>: the rule chain runs when \<^verbatim>\<open>i < n_rows - 2\<close>,
  and its two results are stored again in the cells they were read from.
\<close>

definition define_thc_class_normal_or_above :: "env \<Rightarrow> nat \<Rightarrow> stmt" where
  "define_thc_class_normal_or_above p i =
     (if int i < int (n_rows p) - 2 then seq [
        THC_Class p i,
        assign ''Post_Ap_Baseflow'' i (\<lambda>s. arr s ''Post_Ap_Baseflow'' i),
        assign ''Post_AP_EWS'' i (\<lambda>s. arr s ''Post_AP_EWS'' i)]
      else skip)"

section \<open>The run (LOONE\_Q)\<close>

text \<open>\<^verbatim>\<open>M_var.__init__\<close>: every array is filled with zeros; nothing has been assigned yet.\<close>

definition M_var_init :: state where
  "M_var_init = \<lparr>arr = (\<lambda>v k. 0), arr_nan = (\<lambda>v k. Fl 0), arr_int = (\<lambda>v k. 0),
     arr_flag = (\<lambda>v k. NoFlag), lo_model_out = (\<lambda>c k. 0), written = []\<rparr>"

text \<open>
  \<^verbatim>\<open>_calculate_targ_stg_df\<close>: the eight percentile arrays, one cell of each per day.
\<close>

definition targ_stg :: "env \<Rightarrow> arg" where
  "targ_stg p = (if config p ''opt_date_targ_stg'' = 1 then T ''Targ_Stg_June_1st''
                 else T ''Targ_Stg_May_1st'')"

definition calculate_targ_stg_df :: "env \<Rightarrow> stmt" where
  "calculate_targ_stg_df p =
     for_loop [0 ..< n_rows p - 1] (\<lambda>i. seq [
       assign ''V10per'' i (\<lambda>s. replicate_fn p
         [I (year (date_range_5 p i)), I (tm_yday p (date_range_5 p i)), I 10, targ_stg p]),
       assign ''V20per'' i (\<lambda>s. replicate_fn p
         [I (year (date_range_5 p i)), I (tm_yday p (date_range_5 p i)), I 20, targ_stg p]),
       assign ''V25per'' i (\<lambda>s. replicate_fn p
         [I (year (date_range_5 p i)), I (tm_yday p (date_range_5 p i)), I 25, targ_stg p]),
       assign ''V30per'' i (\<lambda>s. replicate_fn p
         [I (year (date_range_5 p i)), I (tm_yday p (date_range_5 p i)), I 30, targ_stg p]),
       assign ''V40per'' i (\<lambda>s. replicate_fn p
         [I (year (date_range_5 p i)), I (tm_yday p (date_range_5 p i)), I 40, targ_stg p]),
       assign ''V45per'' i (\<lambda>s. replicate_fn p
         [I (year (date_range_5 p i)), I (tm_yday p (date_range_5 p i)), I 45, targ_stg p]),
       assign ''V50per'' i (\<lambda>s. replicate_fn p
         [I (year (date_range_5 p i)), I (tm_yday p (date_range_5 p i)), I 50, targ_stg p]),
       assign ''V60per'' i (\<lambda>s. replicate_fn p
         [I (year (date_range_5 p i)), I (tm_yday p (date_range_5 p i)), I 60, targ_stg p])])"

text \<open>\<^verbatim>\<open>_determine_day_flags\<close>, which looks at the third row of the dates.\<close>

definition determine_day_flags :: "env \<Rightarrow> dayflag" where
  "determine_day_flags p =
     (if month (startdate p) = month (lo_model_date p 2)
         \<and> day (startdate p) = day (lo_model_date p 2) then SimDay1
      else if year (begdateCS p) = year (lo_model_date p 2)
         \<and> month (begdateCS p) = month (lo_model_date p 2)
         \<and> day (begdateCS p) = day (lo_model_date p 2) then CS_start_date
      else OnDate (lo_model_date p 2))"

text \<open>
  \<^verbatim>\<open>_initialize_model_variables_stage_levels_flags\<close> assigns at the indices 0 and 1 of
  arrays of \<open>n_rows\<close> cells, then reads the third date and assigns at index 2: with fewer
  than three rows the first of these that is out of range raises IndexError.
\<close>

definition initialize_model_variables_stage_levels_flags :: "env \<Rightarrow> stmt" where
  "initialize_model_variables_stage_levels_flags p = seq [
     assign_in (n_rows p) ''Lake_Stage'' 0 (\<lambda>s. config p ''beg_stage_cs''),
     assign_in (n_rows p) ''Lake_Stage'' 1 (\<lambda>s. config p ''beg_stage_cs''),
     assign_nan_in (n_rows p) ''DecTree_Relslevel'' 0 (\<lambda>s. NaN),
     assign_nan_in (n_rows p) ''DecTree_Relslevel'' 1 (\<lambda>s. NaN),
     (if 2 < n_rows p then assign_flag ''DayFlags'' 2 (\<lambda>s. determine_day_flags p)
      else raise IndexError)]"

text \<open>
  The body of the daily loop, in the order of the source, as two lists: the calls that
  come before that of \<^verbatim>\<open>_calculate_dsto_and_storage\<close>, then that call and the two after it.
  The call of \<^verbatim>\<open>_calculate_dsto_and_storage\<close> passes \<^verbatim>\<open>start_storage\<close>, a name that
  \<^verbatim>\<open>LOONE_Q\<close> does not bind (\<^verbatim>\<open>_set_starting_storage\<close>, which would supply the value,
  is never called): the call raises NameError before the function runs.
\<close>

definition daily_steps_before_dsto :: "env \<Rightarrow> nat \<Rightarrow> stmt list" where
  "daily_steps_before_dsto p i = [
     calculate_wsm_zone p i,
     calculate_max_supply p i,
     calculate_losa_supply p i,
     calculate_ni_supply p i,
     calculate_cutback p i,
     calculate_demand_not_supplied p i,
     calculate_zone_code p i,
     generate_zone_column p i,
     calculate_decision_tree_variables p i,
     calculate_release_levels p i,
     calculate_zone_codes p i,
     calculate_release_level_codes p i,
     calculate_outlet2ds_mult p i,
     calculate_outlet2dsrs p i,
     calculate_outlet2dsbs p i,
     calculate_outlet2usbk p i,
     calculate_outlet2usrg_code p i,
     calculate_outlet2ds p i,
     calculate_relevel_code_3_s77 p i,
     calculate_outlet1us_mult p i,
     calculate_outlet1us_mult_2 p i,
     calculate_outlet1usrs p i,
     calculate_sum_outlet1usrs p i,
     calculate_outlet1usbk p i,
     calculate_rowest p i,
     calculate_outlet1dsbs p i,
     calculate_outlet1usbs p i,
     define_thc_class_normal_or_above p i,
     calculate_outlet1usbsap p i,
     calculate_outlet1usews p i,
     calculate_outlet1usreg p i,
     calculate_outlet1ds p i,
     calculate_tot_reg_ew p i,
     calculate_choose_wca p i,
     calculate_choose_l8c51 p i,
     calculate_tot_reg_so p i,
     calculate_stage2ar_and_stage2marsh p i,
     calculate_rf_and_et p i,
     calculate_wsa p i]"

definition daily_steps_from_dsto :: "env \<Rightarrow> nat \<Rightarrow> stmt list" where
  "daily_steps_from_dsto p i = [
     call_with (unbound_name ''start_storage'')
       (\<lambda>start_storage. calculate_dsto_and_storage p start_storage i),
     calculate_lake_stage p i,
     update_lo_model]"

definition daily_steps :: "env \<Rightarrow> nat \<Rightarrow> stmt list" where
  "daily_steps p i = daily_steps_before_dsto p i @ daily_steps_from_dsto p i"

definition daily_body :: "env \<Rightarrow> nat \<Rightarrow> stmt" where
  "daily_body p i = seq (daily_steps p i)"

text \<open>\<^verbatim>\<open>for i in range(n_rows - 2)\<close>, and the whole of \<^verbatim>\<open>LOONE_Q\<close> on the model variables.\<close>

definition daily_loop :: "env \<Rightarrow> stmt" where
  "daily_loop p = for_loop [0 ..< n_rows p - 2] (daily_body p)"

definition LOONE_Q :: "env \<Rightarrow> outcome" where
  "LOONE_Q p = seq [
     determine_seasons p,
     calculate_targ_stg_df p,
     initialize_model_variables_stage_levels_flags p,
     calculate_initial_zone_code_and_lo_zone p,
     daily_loop p] M_var_init"

section \<open>The cells a day assigns\<close>

text \<open>
  The cells that the statements of \<^verbatim>\<open>THC_Class\<close> and of the body of the daily loop assign
  on day \<open>i\<close>, in program order: for the body, first those of the statements that come
  before the call of \<^verbatim>\<open>_calculate_dsto_and_storage\<close>, then those of that function and of
  \<^verbatim>\<open>_calculate_lake_stage\<close>. That a run logs a prefix of these cells, and all of them
  when it returns, is proved below (\<open>frames_THC_Class\<close>, \<open>frames_daily_body\<close>).
\<close>

definition THC_Class_writes :: "nat \<Rightarrow> cell list" where
  "THC_Class_writes i = [
     (''THC_Class_normal_or_above'', i),
     (''Lake_O_Stage_AP'', i),
     (''Lake_O_Schedule_Zone'', i),
     (''LStgCorres'', i),
     (''LowChance_Check'', i),
     (''Outlet1USRS_AP'', i),
     (''Outlet1USBS_AP'', i),
     (''Outlet1USRS_Pre_AP_S77_Baseflow'', i),
     (''Forecast_D_Sal'', i),
     (''n30d_mavg'', i),
     (''n30davgForecast'', i),
     (''LORS08_bf_rel'', i),
     (''LDS_LC6_1'', i),
     (''S_O'', i),
     (''All_4'', i),
     (''Sabf'', i),
     (''Swbf'', i),
     (''Swbu'', i),
     (''All_4andStage'', i),
     (''All_4andStagein'', i),
     (''P_AP_BF_Stg'', i),
     (''Logic_test_1'', i),
     (''Post_Ap_Baseflow'', i),
     (''Outlet1USRSplusPreAPS77bsf'', i),
     (''AndEstNeedsLakeWater'', i),
     (''AndLowChance61stagelessth11'', i),
     (''ATHCnora'', i),
     (''Choose_PAPEWS_1'', i),
     (''Choose_PAPEWS_2'', i),
     (''Post_AP_EWS'', i),
     (''Post_AP_Baseflow_EWS_cfs'', i)]"

definition daily_writes_before_dsto :: "env \<Rightarrow> nat \<Rightarrow> cell list" where
  "daily_writes_before_dsto p i =
     (''WSM_Zone'', i + 2) #
     (''Max_Supply'', i + 2) #
     (''LOSA_Supply'', i + 2) #
     (''NI_Supply'', i + 2) #
     (''Cut_back'', i + 2) #
     (''Dem_N_Sup'', i + 2) #
     (''Zone_Code'', i + 1) #
     (''LO_Zone'', i + 1) #
     [(''Zone_D_Trib'', i), (''Zone_D_stage'', i), (''Zone_D_Seas'', i), (''Zone_D_MSeas'', i),
      (''Zone_D_Branch_Code'', i), (''Zone_D_Rel_Code'', i),
      (''Zone_C_Trib'', i), (''Zone_C_Seas'', i), (''Zone_C_MSeas'', i),
      (''Zone_C_MetFcast'', i), (''Zone_C_Branch_Code'', i), (''Zone_C_Rel_Code'', i),
      (''Zone_B_Trib'', i), (''Zone_B_Stage'', i), (''Zone_B_Seas'', i),
      (''Zone_B_Branch_Code'', i), (''Zone_B_Rel_Code'', i)] @
     ((''DecTree_Relslevel'', i + 2) #
      (if i \<ge> 3 then [(''DayFlags'', i)] else []) @
      (''PlsDay'', i + 2) #
      (''Release_Level'', i + 2) #
      (if i \<ge> 6 then [(''dh_7days'', i + 1)] else [])) @
     [(''ZoneCodeminus1Code'', i + 1), (''ZoneCodeCode'', i + 1),
      (''Fraction_of_Zone_height'', i + 1)] @
     [(''ReLevelCode_1'', i + 2), (''ReLevelCode_2'', i + 2), (''ReLevelCode_3_S80'', i + 2)] @
     [(''Outlet2DS_Mult'', i + 2), (''Outlet2DS_Mult_2'', i + 2)] @
     [(''Outlet2DSRS'', i + 2), (''Outlet2USRG1'', i + 2), (''Sum_Outlet2USRG1'', i + 2)] @
     (''Outlet2DSBS'', i + 2) #
     [(''Outlet2USBK'', i + 2), (''ROeast'', i + 2), (''Outlet2USBS'', i + 2),
      (''Sum_Outlet2USBK'', i + 2)] @
     [(''Outlet2USRG_Code'', i + 2), (''Outlet2USRG'', i + 2)] @
     (''Outlet2DS'', i + 2) #
     (''ReLevelCode_3_S77'', i + 2) #
     (''Outlet1US_Mult'', i + 2) #
     (''Outlet1US_Mult_2'', i + 2) #
     (''Outlet1USRS'', i + 2) #
     (''Sum_Outlet1USRS'', i + 2) #
     (''Outlet1USBK'', i + 2) #
     (''ROwest'', i + 2) #
     (''Outlet1DSBS'', i + 2) #
     (''Outlet1USBS'', i + 2) #
     (if int i < int (n_rows p) - 2
      then THC_Class_writes i @ [(''Post_Ap_Baseflow'', i), (''Post_AP_EWS'', i)]
      else []) @
     (''Outlet1USBSAP'', i + 2) #
     (''Outlet1USEWS'', i + 2) #
     (''Outlet1USREG'', i + 2) #
     (''Outlet1DS'', i + 2) #
     (''TotRegEW'', i + 2) #
     [(''Choose_WCA'', i + 2), (''RegWCA'', i + 2)] @
     [(''Choose_L8C51'', i + 2), (''RegL8C51'', i + 2)] @
     (''TotRegSo'', i + 2) #
     [(''Stage2ar'', i + 2), (''Stage2marsh'', i + 2)] @
     [(''RF'', i + 2), (''ET'', i + 2)] @
     [(''Choose_WSA_1'', i + 2), (''Choose_WSA_2'', i + 2), (''WSA_MIA'', i + 2),
      (''WSA_NNR'', i + 2)]"

definition daily_writes :: "env \<Rightarrow> nat \<Rightarrow> cell list" where
  "daily_writes p i =
     daily_writes_before_dsto p i @
     [(''DSto'', i + 2), (''Storage'', i + 2)] @
     [(''Lake_Stage'', i + 2)]"

text \<open>
  The day offset of a model variable: the loop assigns the variable on day \<open>i\<close> at index
  \<open>i\<close> plus this offset (proved below, \<open>daily_writes_offset\<close>).
\<close>

definition offset_1_arrays :: "string list" where
  "offset_1_arrays = [''Zone_Code'', ''LO_Zone'', ''dh_7days'', ''ZoneCodeminus1Code'',
     ''ZoneCodeCode'', ''Fraction_of_Zone_height'']"

definition offset_0_arrays :: "string list" where
  "offset_0_arrays = [''DayFlags'',
     ''Zone_D_Trib'', ''Zone_D_stage'', ''Zone_D_Seas'', ''Zone_D_MSeas'',
     ''Zone_D_Branch_Code'', ''Zone_D_Rel_Code'',
     ''Zone_C_Trib'', ''Zone_C_Seas'', ''Zone_C_MSeas'', ''Zone_C_MetFcast'',
     ''Zone_C_Branch_Code'', ''Zone_C_Rel_Code'',
     ''Zone_B_Trib'', ''Zone_B_Stage'', ''Zone_B_Seas'', ''Zone_B_Branch_Code'',
     ''Zone_B_Rel_Code''] @ map fst (THC_Class_writes 0)"

definition day_offset :: "string \<Rightarrow> nat" where
  "day_offset v = (if v \<in> set offset_1_arrays then 1
                   else if v \<in> set offset_0_arrays then 0
                   else 2)"

text \<open>The cells logged between two states of a run.\<close>

definition new_writes :: "state \<Rightarrow> state \<Rightarrow> cell list" where
  "new_writes s s' = drop (length (written s)) (written s')"

text \<open>The arrays of the adaptive protocol: those that \<^verbatim>\<open>THC_Class\<close> assigns.\<close>

definition AP_arrays :: "string list" where
  "AP_arrays = map fst (THC_Class_writes 0)"

text \<open>The cells that \<^verbatim>\<open>LOONE_Q\<close> assigns before the daily loop, in program order.\<close>

definition pre_loop_writes :: "env \<Rightarrow> cell list" where
  "pre_loop_writes p =
     concat (map (\<lambda>i. [(''Daily_Seasons'', i), (''Mon'', i)]) [0 ..< n_rows p - 1]) @
     concat (map (\<lambda>i. [(''V10per'', i), (''V20per'', i), (''V25per'', i), (''V30per'', i),
                        (''V40per'', i), (''V45per'', i), (''V50per'', i), (''V60per'', i)])
               [0 ..< n_rows p - 1]) @
     [(''Lake_Stage'', 0), (''Lake_Stage'', 1), (''DecTree_Relslevel'', 0),
      (''DecTree_Relslevel'', 1), (''DayFlags'', 2)] @
     [(''Zone_Code'', 0), (''LO_Zone'', 0)]"

section \<open>A small run\<close>

text \<open>
  An environment of five rows, so three days, in which every unknown function is
  constant, the salinity option is 3 and the pulse table has one row. It serves to run
  the simulation on a concrete input. In its runs every pulse day is 0 or 1 and every
  float cell is 0, those of the seasons and of the adaptive protocol apart
  (\<open>small_run\<close>); \<open>runs_ok f\<close>: from such a state \<open>f\<close> returns, in such a state again.
\<close>

definition env0 :: env where
  "env0 = \<lparr>n_rows = 5,
     config = (\<lambda>k. if k = ''OptSalFcast'' then 3 else 0),
     schedule = ''LORS20082023'',
     startdate = Date 2008 1 1,
     begdateCS = Date 2008 1 1,
     lo_functions = (\<lambda>f args. 0),
     lo_functions_PlsDay = (\<lambda>args. 1),
     dec_tree_functions = (\<lambda>f args. 0),
     stg_sto_ar = (\<lambda>f args. 0),
     replicate_fn = (\<lambda>args. 0),
     df = (\<lambda>t c k. 0),
     date_range_5 = (\<lambda>k. Date 2008 1 (1 + int k)),
     date_range_6 = (\<lambda>k. if k = 0 then Date 2007 12 31 else Date 2008 1 (int k)),
     CE_SLE_turns = (\<lambda>c k. 0),
     Pulses = [\<lambda>c. 0],
     Estuary_needs_water = (\<lambda>k. False),
     Targ_Stg_df = (\<lambda>c k. 0),
     tm_yday = (\<lambda>d. day d),
     vlookup1_c = (\<lambda>k. 0),
     vlookup2_c = (\<lambda>k. 0),
     storage_deviation = (\<lambda>k. 0),
     tp_lake_s = (\<lambda>k. 0),
     s77_dv = (\<lambda>m. 0)\<rparr>"

definition PlsDay_0_or_1 :: "state \<Rightarrow> bool" where
  "PlsDay_0_or_1 s \<longleftrightarrow> (\<forall>k. arr_int s ''PlsDay'' k = 0 \<or> arr_int s ''PlsDay'' k = 1)"

definition small_run :: "state \<Rightarrow> bool" where
  "small_run s \<longleftrightarrow>
     PlsDay_0_or_1 s
     \<and> (\<forall>v k. v \<notin> set (''Daily_Seasons'' # ''Mon'' # AP_arrays) \<longrightarrow> arr s v k = 0)"

definition runs_ok :: "stmt \<Rightarrow> bool" where
  "runs_ok f \<longleftrightarrow> (\<forall>s. small_run s \<longrightarrow> (\<exists>s'. f s = Inr s' \<and> small_run s'))"

text \<open>
  Four variants of the small run: one in which the seasonal code of zone B is 1, one
  with a pulse table of three rows, one with a demand of 4 on every day, one with a
  storage deviation of 5 on every day.
\<close>

definition env_B_Seas :: env where
  "env_B_Seas = env0\<lparr>dec_tree_functions := (\<lambda>f args. if f = ''Zone_B_Seas'' then 1 else 0)\<rparr>"

definition env_Pulses :: env where
  "env_Pulses = env0\<lparr>Pulses := [\<lambda>c. 10, \<lambda>c. 20, \<lambda>c. 30]\<rparr>"

definition env_demand :: env where
  "env_demand = env0\<lparr>df := (\<lambda>t c k. if c = ''LOSA_dmd_SFWMM'' then 4 else 0)\<rparr>"

definition env_deviation :: env where
  "env_deviation = env0\<lparr>storage_deviation := (\<lambda>k. 5)\<rparr>"

text \<open>A cell of a float array after a statement, when the statement returns.\<close>

definition arr_after :: "outcome \<Rightarrow> string \<Rightarrow> nat \<Rightarrow> real option" where
  "arr_after r v k = (case r of Inl es \<Rightarrow> None | Inr s \<Rightarrow> Some (arr s v k))"

section \<open>The zone classifier\<close>

text \<open>
  Modelled from the spec: \<^verbatim>\<open>lo_functions.Zone_Code\<close> belongs to \<^verbatim>\<open>loone.utils\<close>, which is
  not among the files verified here; only its calls are (\<^verbatim>\<open>_calculate_zone_code\<close>). The
  specification describes it as a threshold ladder over the stage that returns an ordinal
  zone code, in which a stage equal to a threshold resolves to the lower zone. The
  thresholds are taken in the order of the call, from the highest (\<open>A\<close>) to the lowest
  (\<open>WSM1\<close>), and the nine zones are numbered from 1, the lowest, to 9.
\<close>

definition Zone_Code ::
  "real \<Rightarrow> real \<Rightarrow> real \<Rightarrow> real \<Rightarrow> real \<Rightarrow> real \<Rightarrow> real \<Rightarrow> real \<Rightarrow> real \<Rightarrow> nat" where
  "Zone_Code Stage_LO A B C D3 D2 D1 D0 WSM1 =
     (if Stage_LO > A then 9
      else if Stage_LO > B then 8
      else if Stage_LO > C then 7
      else if Stage_LO > D3 then 6
      else if Stage_LO > D2 then 5
      else if Stage_LO > D1 then 4
      else if Stage_LO > D0 then 3
      else if Stage_LO > WSM1 then 2
      else 1)"

section \<open>Theorems\<close>

subsection \<open>What a statement assigns\<close>

lemma final_state_Inr [simp]: "final_state (Inr s) = s"
  by (simp add: final_state_def)

lemma final_state_Inl [simp]: "final_state (Inl (e, s)) = s"
  by (simp add: final_state_def)

lemma framesI:
  assumes "\<And>s. (\<exists>e. f s = Inl (e, s))
             \<or> (\<exists>s'. f s = Inr s' \<and> written s' = written s @ W
                   \<and> (\<forall>c. c \<notin> set W \<longrightarrow> cell_of s' c = cell_of s c))"
  shows "frames W f"
  unfolding frames_def
proof
  fix s
  from assms [of s]
  show "\<exists>W1 W2. W = W1 @ W2 \<and> written (final_state (f s)) = written s @ W1
      \<and> (\<forall>c. c \<notin> set W1 \<longrightarrow> cell_of (final_state (f s)) c = cell_of s c)
      \<and> (\<forall>s'. f s = Inr s' \<longrightarrow> W2 = [])"
  proof (elim disjE exE conjE)
    fix e
    assume "f s = Inl (e, s)"
    then have "W = [] @ W \<and> written (final_state (f s)) = written s @ []
      \<and> (\<forall>c. c \<notin> set [] \<longrightarrow> cell_of (final_state (f s)) c = cell_of s c)
      \<and> (\<forall>s'. f s = Inr s' \<longrightarrow> W = [])"
      by simp
    then show ?thesis by blast
  next
    fix s'
    assume "f s = Inr s'" "written s' = written s @ W"
      "\<forall>c. c \<notin> set W \<longrightarrow> cell_of s' c = cell_of s c"
    then have "W = W @ [] \<and> written (final_state (f s)) = written s @ W
      \<and> (\<forall>c. c \<notin> set W \<longrightarrow> cell_of (final_state (f s)) c = cell_of s c)
      \<and> (\<forall>s'. f s = Inr s' \<longrightarrow> ([]::cell list) = [])"
      by simp
    then show ?thesis by blast
  qed
qed

lemma frames_raise: "frames W (raise e)"
  by (rule framesI) (simp add: raise_def)

lemma frames_assign: "frames [(v, k)] (assign v k e)"
  by (rule framesI) (auto simp: assign_def cell_of_def)

lemma frames_assign_nan: "frames [(v, k)] (assign_nan v k e)"
  by (rule framesI) (auto simp: assign_nan_def cell_of_def)

lemma frames_assign_int: "frames [(v, k)] (assign_int v k e)"
  by (rule framesI) (auto simp: assign_int_def cell_of_def)

lemma frames_assign_flag: "frames [(v, k)] (assign_flag v k e)"
  by (rule framesI) (auto simp: assign_flag_def cell_of_def)

lemma frames_assign_res: "frames [(v, k)] (assign_res v k e)"
proof (rule framesI)
  fix s
  show "(\<exists>err. assign_res v k e s = Inl (err, s))
      \<or> (\<exists>s'. assign_res v k e s = Inr s' \<and> written s' = written s @ [(v, k)]
            \<and> (\<forall>c. c \<notin> set [(v, k)] \<longrightarrow> cell_of s' c = cell_of s c))"
    by (cases "e s") (auto simp: assign_res_def assign_def cell_of_def)
qed

lemma frames_assign_nan_res: "frames [(v, k)] (assign_nan_res v k e)"
proof (rule framesI)
  fix s
  show "(\<exists>err. assign_nan_res v k e s = Inl (err, s))
      \<or> (\<exists>s'. assign_nan_res v k e s = Inr s' \<and> written s' = written s @ [(v, k)]
            \<and> (\<forall>c. c \<notin> set [(v, k)] \<longrightarrow> cell_of s' c = cell_of s c))"
    by (cases "e s") (auto simp: assign_nan_res_def assign_nan_def cell_of_def)
qed

lemma frames_assign_in: "frames [(v, k)] (assign_in n v k e)"
  by (simp add: assign_in_def frames_assign frames_raise)

lemma frames_assign_nan_in: "frames [(v, k)] (assign_nan_in n v k e)"
  by (simp add: assign_nan_in_def frames_assign_nan frames_raise)

lemma frames_call_with:
  assumes "\<And>x. frames W (f x)"
  shows "frames W (call_with a f)"
proof (cases a)
  case (Inl err)
  then have "call_with a f = raise err"
    by (simp add: call_with_def raise_def fun_eq_iff)
  then show ?thesis by (simp add: frames_raise)
next
  case (Inr x)
  then have "call_with a f = f x"
    by (simp add: call_with_def fun_eq_iff)
  with assms show ?thesis by simp
qed

lemma frames_skip: "frames [] skip"
  by (rule framesI) (simp add: skip_def)

lemma frames_update_lo_model: "frames [] update_lo_model"
  by (rule framesI) (auto simp: update_lo_model_def cell_of_def)

lemma frames_seq_Nil: "frames [] (seq [])"
  by (rule framesI) simp

lemma frames_then:
  assumes f: "frames W1 f" and g: "frames W2 g"
    and h: "\<And>s. h s = (case f s of Inl es \<Rightarrow> Inl es | Inr t \<Rightarrow> g t)"
  shows "frames (W1 @ W2) h"
  unfolding frames_def
proof
  fix s
  from f [unfolded frames_def] obtain A B where A: "W1 = A @ B"
    "written (final_state (f s)) = written s @ A"
    "\<And>c. c \<notin> set A \<Longrightarrow> cell_of (final_state (f s)) c = cell_of s c"
    "\<And>t. f s = Inr t \<Longrightarrow> B = []"
    by blast
  show "\<exists>V1 V2. W1 @ W2 = V1 @ V2 \<and> written (final_state (h s)) = written s @ V1
      \<and> (\<forall>c. c \<notin> set V1 \<longrightarrow> cell_of (final_state (h s)) c = cell_of s c)
      \<and> (\<forall>s'. h s = Inr s' \<longrightarrow> V2 = [])"
  proof (cases "f s")
    case (Inl es)
    then have "final_state (h s) = final_state (f s)" and "\<And>s'. h s \<noteq> Inr s'"
      by (simp_all add: h)
    with A have "W1 @ W2 = A @ (B @ W2) \<and> written (final_state (h s)) = written s @ A
      \<and> (\<forall>c. c \<notin> set A \<longrightarrow> cell_of (final_state (h s)) c = cell_of s c)
      \<and> (\<forall>s'. h s = Inr s' \<longrightarrow> B @ W2 = [])"
      by simp
    then show ?thesis by blast
  next
    case (Inr t)
    with A have B: "B = []" and t: "written t = written s @ W1"
      "\<And>c. c \<notin> set W1 \<Longrightarrow> cell_of t c = cell_of s c"
      by auto
    from g [unfolded frames_def] obtain C D where C: "W2 = C @ D"
      "written (final_state (g t)) = written t @ C"
      "\<And>c. c \<notin> set C \<Longrightarrow> cell_of (final_state (g t)) c = cell_of t c"
      "\<And>u. g t = Inr u \<Longrightarrow> D = []"
      by blast
    from Inr have hs: "h s = g t"
      by (simp add: h)
    from C t have "W1 @ W2 = (W1 @ C) @ D
      \<and> written (final_state (h s)) = written s @ W1 @ C
      \<and> (\<forall>c. c \<notin> set (W1 @ C) \<longrightarrow> cell_of (final_state (h s)) c = cell_of s c)
      \<and> (\<forall>s'. h s = Inr s' \<longrightarrow> D = [])"
      unfolding hs by simp
    then show ?thesis by blast
  qed
qed

lemma frames_seq_Cons:
  assumes "frames W1 f" and "frames W2 (seq fs)"
  shows "frames (W1 @ W2) (seq (f # fs))"
  using assms by (rule frames_then) simp

lemma frames_seq_Cons1:
  assumes "frames [c] f" and "frames W (seq fs)"
  shows "frames (c # W) (seq (f # fs))"
  using frames_seq_Cons [OF assms] by simp

lemma frames_seq_last: "frames W f \<Longrightarrow> frames W (seq [f])"
  using frames_seq_Cons [OF _ frames_seq_Nil, of W f] by simp

lemma seq_append:
  "seq (fs @ gs) s = (case seq fs s of Inl es \<Rightarrow> Inl es | Inr t \<Rightarrow> seq gs t)"
  by (induction fs arbitrary: s) (simp_all split: sum.splits)

lemma frames_seq_append:
  assumes "frames W1 (seq fs)" and "frames W2 (seq gs)"
  shows "frames (W1 @ W2) (seq (fs @ gs))"
  using assms
  by (rule frames_then) (rule seq_append)

lemma frames_if:
  assumes "c \<Longrightarrow> frames W1 f" and "\<not> c \<Longrightarrow> frames W2 g"
  shows "frames (if c then W1 else W2) (if c then f else g)"
  using assms by simp

lemma frames_if_raise:
  assumes "frames W f"
  shows "frames W (if c then f else raise e)"
  using assms by (simp add: frames_raise)

lemma frames_for_loop:
  assumes "\<And>i. frames (W i) (body i)"
  shows "frames (concat (map W xs)) (for_loop xs body)"
proof (induction xs)
  case Nil
  show ?case by (rule framesI) simp
next
  case (Cons i xs)
  from assms [of i] Cons have "frames (W i @ concat (map W xs)) (for_loop (i # xs) body)"
    by (rule frames_then) simp
  then show ?case by (simp only: list.map concat.simps)
qed

lemma frames_written:
  assumes "frames W f"
  shows "set (new_writes s (final_state (f s))) \<subseteq> set W"
proof -
  from assms [unfolded frames_def] obtain W1 W2 where "W = W1 @ W2"
    "written (final_state (f s)) = written s @ W1"
    by blast
  then show ?thesis by (simp add: new_writes_def)
qed

lemma frames_written_returns:
  assumes "frames W f" and "f s = Inr s'"
  shows "written s' = written s @ W"
proof -
  from assms(1) [unfolded frames_def] obtain W1 W2 where "W = W1 @ W2"
    "written (final_state (f s)) = written s @ W1" "\<forall>s'. f s = Inr s' \<longrightarrow> W2 = []"
    by blast
  with assms(2) show ?thesis by simp
qed

lemma frames_cell:
  assumes "frames W f" and "c \<notin> set W"
  shows "cell_of (final_state (f s)) c = cell_of s c"
proof -
  from assms(1) [unfolded frames_def] obtain W1 W2 where "W = W1 @ W2"
    "\<And>c. c \<notin> set W1 \<Longrightarrow> cell_of (final_state (f s)) c = cell_of s c"
    by blast
  with assms(2) show ?thesis by auto
qed

lemmas frames_intros = frames_seq_last frames_seq_Cons1 frames_seq_Cons frames_seq_Nil
  frames_assign frames_assign_nan frames_assign_int frames_assign_flag frames_assign_res
  frames_assign_nan_res frames_assign_in frames_assign_nan_in frames_call_with frames_skip
  frames_update_lo_model frames_if

lemmas step_defs = calculate_wsm_zone_def calculate_max_supply_def calculate_losa_supply_def
  calculate_ni_supply_def calculate_cutback_def calculate_demand_not_supplied_def
  calculate_zone_code_def generate_zone_column_def calculate_decision_tree_variables_def
  calculate_release_levels_def calculate_zone_codes_def calculate_release_level_codes_def
  calculate_outlet2ds_mult_def calculate_outlet2dsrs_def calculate_outlet2dsbs_def
  calculate_outlet2usbk_def calculate_outlet2usrg_code_def calculate_outlet2ds_def
  calculate_relevel_code_3_s77_def calculate_outlet1us_mult_def
  calculate_outlet1us_mult_2_def calculate_outlet1usrs_def calculate_sum_outlet1usrs_def
  calculate_outlet1usbk_def calculate_rowest_def calculate_outlet1dsbs_def
  calculate_outlet1usbs_def define_thc_class_normal_or_above_def
  calculate_outlet1usbsap_def calculate_outlet1usews_def calculate_outlet1usreg_def
  calculate_outlet1ds_def calculate_tot_reg_ew_def calculate_choose_wca_def
  calculate_choose_l8c51_def calculate_tot_reg_so_def
  calculate_stage2ar_and_stage2marsh_def calculate_rf_and_et_def calculate_wsa_def
  calculate_dsto_and_storage_def calculate_lake_stage_def

lemma frames_THC_Class: "frames (THC_Class_writes i) (THC_Class p i)"
  unfolding THC_Class_def THC_Class_writes_def by (rule frames_intros)+

lemma frames_before_dsto:
  "frames (daily_writes_before_dsto p i) (seq (daily_steps_before_dsto p i))"
  unfolding daily_steps_before_dsto_def daily_writes_before_dsto_def step_defs
  by (rule frames_intros frames_THC_Class)+

lemma frames_calculate_dsto_and_storage:
  "frames [(''DSto'', i + 2), (''Storage'', i + 2)] (calculate_dsto_and_storage p start_storage i)"
  unfolding calculate_dsto_and_storage_def by (rule frames_intros)+

lemma frames_calculate_lake_stage:
  "frames [(''Lake_Stage'', i + 2)] (calculate_lake_stage p i)"
  unfolding calculate_lake_stage_def by (rule frames_intros)+

lemma frames_from_dsto:
  "frames ([(''DSto'', i + 2), (''Storage'', i + 2)] @ [(''Lake_Stage'', i + 2)])
     (seq (daily_steps_from_dsto p i))"
  unfolding daily_steps_from_dsto_def
  by (rule frames_intros frames_calculate_dsto_and_storage frames_calculate_lake_stage)+

lemma frames_daily_body: "frames (daily_writes p i) (daily_body p i)"
  unfolding daily_body_def daily_writes_def daily_steps_def
  by (rule frames_seq_append frames_before_dsto frames_from_dsto)+

lemma frames_daily_loop_from:
  "frames (concat (map (daily_writes p) xs)) (for_loop xs (daily_body p))"
  by (rule frames_for_loop) (rule frames_daily_body)


subsection \<open>Every cell of a day lies at the day offset of its variable\<close>

lemma list_all_if_Nil: "list_all P (if c then xs else []) \<longleftrightarrow> (c \<longrightarrow> list_all P xs)"
  by simp

lemma THC_Class_writes_offset:
  "list_all (\<lambda>c. snd c = i + day_offset (fst c)) (THC_Class_writes i)"
  by (simp add: THC_Class_writes_def day_offset_def offset_1_arrays_def offset_0_arrays_def)

lemma daily_writes_offset_all:
  "list_all (\<lambda>c. snd c = i + day_offset (fst c)) (daily_writes p i)"
  unfolding daily_writes_def daily_writes_before_dsto_def list_all_append list.pred_inject
    list_all_if_Nil
  using THC_Class_writes_offset [of i]
  by (simp add: day_offset_def offset_1_arrays_def offset_0_arrays_def THC_Class_writes_def)

lemma daily_writes_offset:
  "c \<in> set (daily_writes p i) \<Longrightarrow> snd c = i + day_offset (fst c)"
  using daily_writes_offset_all [of i p] by (simp add: list_all_iff)

lemma day_offset_le_2: "day_offset v \<le> 2"
  by (simp add: day_offset_def)

lemma daily_writes_in_range:
  assumes "c \<in> set (daily_writes p i)" and "i < n_rows p - 2"
  shows "snd c < n_rows p" and "day_offset (fst c) = 0 \<Longrightarrow> snd c < n_rows p - 1"
  using daily_writes_offset [OF assms(1)] day_offset_le_2 [of "fst c"] assms(2) by simp_all

lemma daily_writes_disjoint:
  "i \<noteq> j \<Longrightarrow> set (daily_writes p i) \<inter> set (daily_writes p j) = {}"
  using daily_writes_offset [of _ p i] daily_writes_offset [of _ p j] by fastforce

lemma daily_writes_later:
  assumes "c \<in> set (daily_writes p i)" and "\<forall>k \<in> set xs. k \<noteq> i"
  shows "c \<notin> set (concat (map (daily_writes p) xs))"
  using assms daily_writes_disjoint [of i _ p] by fastforce

subsection \<open>The call that raises\<close>

lemma daily_steps_from_dsto_raises: "seq (daily_steps_from_dsto p i) t = Inl (NameError, t)"
  by (simp add: daily_steps_from_dsto_def call_with_def unbound_name_def)

lemma daily_body_raises:
  "daily_body p i s =
     (case seq (daily_steps_before_dsto p i) s of
        Inl es \<Rightarrow> Inl es
      | Inr t \<Rightarrow> Inl (NameError, t))"
  by (simp add: daily_body_def daily_steps_def seq_append daily_steps_from_dsto_raises
      cong: sum.case_cong)

lemma daily_body_never_returns: "daily_body p i s \<noteq> Inr s'"
  by (simp add: daily_body_raises split: sum.splits)

lemma frames_daily_body_before_dsto:
  "frames (daily_writes_before_dsto p i) (daily_body p i)"
proof -
  have "frames (daily_writes_before_dsto p i @ []) (daily_body p i)"
    using frames_before_dsto frames_raise [of "[]" NameError]
    by (rule frames_then) (simp add: daily_body_raises raise_def cong: sum.case_cong)
  then show ?thesis by simp
qed

lemma DSto_not_before_dsto: "(''DSto'', k) \<notin> set (daily_writes_before_dsto p i)"
  by (simp add: daily_writes_before_dsto_def THC_Class_writes_def)

lemma daily_loop_first_day:
  assumes "3 \<le> n_rows p"
  shows "daily_loop p s = daily_body p 0 s"
proof -
  from assms have "[0 ..< n_rows p - 2] = 0 # [1 ..< n_rows p - 2]"
    by (simp add: upt_conv_Cons)
  then show ?thesis
    by (cases "daily_body p 0 s") (simp_all add: daily_loop_def daily_body_never_returns)
qed

subsection \<open>The small run raises on its first day\<close>

lemma runs_ok_assign:
  assumes "\<And>s. small_run s \<Longrightarrow> v \<notin> set (''Daily_Seasons'' # ''Mon'' # AP_arrays) \<Longrightarrow> e s = 0"
  shows "runs_ok (assign v k e)"
  unfolding runs_ok_def
proof (intro allI impI)
  fix s
  assume s: "small_run s"
  with assms [OF s] show "\<exists>s'. assign v k e s = Inr s' \<and> small_run s'"
    by (simp add: assign_def small_run_def PlsDay_0_or_1_def)
qed

lemma runs_ok_assign_nan: "runs_ok (assign_nan v k e)"
  by (simp add: runs_ok_def assign_nan_def small_run_def PlsDay_0_or_1_def)

lemma runs_ok_assign_flag: "runs_ok (assign_flag v k e)"
  by (simp add: runs_ok_def assign_flag_def small_run_def PlsDay_0_or_1_def)

lemma runs_ok_assign_int:
  "(\<And>s. e s = 0 \<or> e s = 1) \<Longrightarrow> runs_ok (assign_int v k e)"
  by (simp add: runs_ok_def assign_int_def small_run_def PlsDay_0_or_1_def)

lemma runs_ok_assign_res:
  assumes "\<And>s. small_run s \<Longrightarrow> \<exists>x. e s = Inr x \<and> (v \<notin> set (''Daily_Seasons'' # ''Mon'' # AP_arrays) \<longrightarrow> x = 0)"
  shows "runs_ok (assign_res v k e)"
  unfolding runs_ok_def
proof (intro allI impI)
  fix s
  assume s: "small_run s"
  from assms [OF s] obtain x where "e s = Inr x" "v \<notin> set (''Daily_Seasons'' # ''Mon'' # AP_arrays) \<longrightarrow> x = 0"
    by blast
  with s show "\<exists>s'. assign_res v k e s = Inr s' \<and> small_run s'"
    by (simp add: assign_res_def assign_def small_run_def PlsDay_0_or_1_def)
qed

lemma runs_ok_assign_nan_res:
  assumes "\<And>s. small_run s \<Longrightarrow> \<exists>x. e s = Inr x"
  shows "runs_ok (assign_nan_res v k e)"
  unfolding runs_ok_def
proof (intro allI impI)
  fix s
  assume s: "small_run s"
  from assms [OF s] obtain x where "e s = Inr x"
    by blast
  with s show "\<exists>s'. assign_nan_res v k e s = Inr s' \<and> small_run s'"
    by (simp add: assign_nan_res_def assign_nan_def small_run_def PlsDay_0_or_1_def)
qed

lemma runs_ok_assign_in:
  assumes "k < n" and "\<And>s. small_run s \<Longrightarrow> v \<notin> set (''Daily_Seasons'' # ''Mon'' # AP_arrays) \<Longrightarrow> e s = 0"
  shows "runs_ok (assign_in n v k e)"
  using assms(1) runs_ok_assign [of v e k, OF assms(2)] by (simp add: assign_in_def)

lemma runs_ok_assign_nan_in: "k < n \<Longrightarrow> runs_ok (assign_nan_in n v k e)"
  by (simp add: assign_nan_in_def runs_ok_assign_nan)

lemma runs_ok_skip: "runs_ok skip"
  by (simp add: runs_ok_def skip_def)

lemma runs_ok_seq_Nil: "runs_ok (seq [])"
  by (simp add: runs_ok_def)

lemma runs_ok_seq_Cons:
  assumes "runs_ok f" and "runs_ok (seq fs)"
  shows "runs_ok (seq (f # fs))"
  unfolding runs_ok_def
proof (intro allI impI)
  fix s
  assume "small_run s"
  with assms(1) obtain t where t: "f s = Inr t" "small_run t"
    unfolding runs_ok_def by blast
  with assms(2) obtain s' where "seq fs t = Inr s'" "small_run s'"
    unfolding runs_ok_def by blast
  with t show "\<exists>s'. seq (f # fs) s = Inr s' \<and> small_run s'"
    by simp
qed

lemma runs_ok_if:
  "(c \<Longrightarrow> runs_ok f) \<Longrightarrow> (\<not> c \<Longrightarrow> runs_ok g) \<Longrightarrow> runs_ok (if c then f else g)"
  by simp

lemma runs_ok_for_loop:
  assumes "\<And>i. i \<in> set xs \<Longrightarrow> runs_ok (body i)"
  shows "runs_ok (for_loop xs body)"
  using assms
proof (induction xs)
  case Nil
  show ?case by (simp add: runs_ok_def)
next
  case (Cons i xs)
  then have b: "runs_ok (body i)" and l: "runs_ok (for_loop xs body)" by simp_all
  show ?case unfolding runs_ok_def
  proof (intro allI impI)
    fix s
    assume "small_run s"
    with b obtain t where t: "body i s = Inr t" "small_run t"
      unfolding runs_ok_def by blast
    with l obtain s' where "for_loop xs body t = Inr s'" "small_run s'"
      unfolding runs_ok_def by blast
    with t show "\<exists>s'. for_loop (i # xs) body s = Inr s' \<and> small_run s'"
      by simp
  qed
qed

lemma runs_okD: "runs_ok f \<Longrightarrow> small_run s \<Longrightarrow> \<exists>s'. f s = Inr s' \<and> small_run s'"
  unfolding runs_ok_def by blast

lemmas runs_ok_intros = runs_ok_seq_Cons runs_ok_seq_Nil runs_ok_assign runs_ok_assign_nan
  runs_ok_assign_flag runs_ok_assign_int runs_ok_assign_res runs_ok_assign_nan_res
  runs_ok_assign_in runs_ok_assign_nan_in runs_ok_skip runs_ok_if

lemma small_run_PlsDay:
  "small_run s \<Longrightarrow> 0 \<le> arr_int s ''PlsDay'' k \<and> arr_int s ''PlsDay'' k \<le> 1"
  unfolding small_run_def PlsDay_0_or_1_def by (metis order_refl zero_le_one)

lemma small_run_arr: "small_run s \<Longrightarrow> v \<notin> set (''Daily_Seasons'' # ''Mon'' # AP_arrays) \<Longrightarrow> arr s v k = 0"
  unfolding small_run_def by blast

lemma small_run_init: "small_run M_var_init"
  by (simp add: small_run_def PlsDay_0_or_1_def M_var_init_def)

lemma runs_ok_THC_Class_env0: "runs_ok (THC_Class (env0\<lparr>storage_deviation := d\<rparr>) i)"
  unfolding THC_Class_def
  by (intro runs_ok_intros)
     (simp_all add: env0_def Forecast_D_Sal_def n30d_mavg_def n30davgForecast_def
        bind_res_def Choose_PAPEWS_2_def AP_arrays_def THC_Class_writes_def)


lemma runs_ok_before_dsto_env0:
  assumes "i \<le> 2"
  shows "runs_ok (seq (daily_steps_before_dsto (env0\<lparr>storage_deviation := d\<rparr>) i))"
  unfolding daily_steps_before_dsto_def step_defs
  apply (intro runs_ok_intros runs_ok_THC_Class_env0)
  apply (simp_all add: env0_def AP_arrays_def THC_Class_writes_def small_run_arr py_div_def
      dec_tree_df_Zone_B_MetFcast_def)
  subgoal for s using assms small_run_PlsDay [of s "Suc (Suc i)"]
    by (auto simp add: bind_res_def np_get_def)
  subgoal for s using assms small_run_PlsDay [of s "Suc (Suc i)"]
    by (auto simp add: bind_res_def df_at_def pulse_row_def)
  subgoal for s using assms small_run_PlsDay [of s "Suc (Suc i)"]
    by (auto simp add: bind_res_def np_get_def)
  subgoal for s using assms small_run_PlsDay [of s "Suc (Suc i)"]
    by (auto simp add: bind_res_def df_at_def pulse_row_def)
  done

lemma daily_body_env0:
  assumes "small_run s" and "i \<le> 2"
  shows "\<exists>t. daily_body (env0\<lparr>storage_deviation := d\<rparr>) i s = Inl (NameError, t)
           \<and> small_run t
           \<and> written t = written s @ daily_writes_before_dsto (env0\<lparr>storage_deviation := d\<rparr>) i"
proof -
  from runs_okD [OF runs_ok_before_dsto_env0 assms(1), OF assms(2), of d]
  obtain t where t: "seq (daily_steps_before_dsto (env0\<lparr>storage_deviation := d\<rparr>) i) s = Inr t"
    "small_run t"
    by blast
  from frames_written_returns [OF frames_before_dsto t(1)] t
  show ?thesis by (simp add: daily_body_raises)
qed

lemma runs_ok_pre_loop_env0:
  "runs_ok (seq [determine_seasons (env0\<lparr>storage_deviation := d\<rparr>),
     calculate_targ_stg_df (env0\<lparr>storage_deviation := d\<rparr>),
     initialize_model_variables_stage_levels_flags (env0\<lparr>storage_deviation := d\<rparr>),
     calculate_initial_zone_code_and_lo_zone (env0\<lparr>storage_deviation := d\<rparr>)])"
  unfolding determine_seasons_def calculate_targ_stg_df_def
    initialize_model_variables_stage_levels_flags_def
    calculate_initial_zone_code_and_lo_zone_def
  apply (intro runs_ok_intros runs_ok_for_loop)
  apply (simp_all add: env0_def AP_arrays_def THC_Class_writes_def small_run_arr)
  done

subsection \<open>The cells of the whole run\<close>

lemma frames_determine_seasons:
  "frames (concat (map (\<lambda>i. [(''Daily_Seasons'', i), (''Mon'', i)]) [0 ..< n_rows p - 1]))
     (determine_seasons p)"
  unfolding determine_seasons_def
  by (rule frames_for_loop) (rule frames_intros)+

lemma frames_calculate_targ_stg_df:
  "frames (concat (map (\<lambda>i. [(''V10per'', i), (''V20per'', i), (''V25per'', i),
       (''V30per'', i), (''V40per'', i), (''V45per'', i), (''V50per'', i), (''V60per'', i)])
     [0 ..< n_rows p - 1]))
     (calculate_targ_stg_df p)"
  unfolding calculate_targ_stg_df_def
  by (rule frames_for_loop) (rule frames_intros)+

lemma frames_initialize:
  "frames [(''Lake_Stage'', 0), (''Lake_Stage'', 1), (''DecTree_Relslevel'', 0),
           (''DecTree_Relslevel'', 1), (''DayFlags'', 2)]
     (initialize_model_variables_stage_levels_flags p)"
  unfolding initialize_model_variables_stage_levels_flags_def
  by (rule frames_intros frames_if_raise)+

lemma frames_initial_zone:
  "frames [(''Zone_Code'', 0), (''LO_Zone'', 0)] (calculate_initial_zone_code_and_lo_zone p)"
  unfolding calculate_initial_zone_code_and_lo_zone_def
  by (rule frames_intros)+

lemma frames_pre_loop:
  "frames (pre_loop_writes p)
     (seq [determine_seasons p, calculate_targ_stg_df p,
           initialize_model_variables_stage_levels_flags p,
           calculate_initial_zone_code_and_lo_zone p])"
  unfolding pre_loop_writes_def
  by (intro frames_seq_Cons frames_seq_last frames_determine_seasons
      frames_calculate_targ_stg_df frames_initialize frames_initial_zone)

lemma frames_daily_loop:
  "frames (concat (map (daily_writes p) [0 ..< n_rows p - 2])) (daily_loop p)"
  unfolding daily_loop_def by (rule frames_daily_loop_from)

lemma LOONE_Q_split:
  "LOONE_Q p =
     (case seq [determine_seasons p, calculate_targ_stg_df p,
                initialize_model_variables_stage_levels_flags p,
                calculate_initial_zone_code_and_lo_zone p] M_var_init of
        Inl es \<Rightarrow> Inl es
      | Inr t \<Rightarrow> daily_loop p t)"
proof -
  have "LOONE_Q p = seq ([determine_seasons p, calculate_targ_stg_df p,
                initialize_model_variables_stage_levels_flags p,
                calculate_initial_zone_code_and_lo_zone p] @ [daily_loop p]) M_var_init"
    by (simp add: LOONE_Q_def)
  also have "\<dots> = (case seq [determine_seasons p, calculate_targ_stg_df p,
                initialize_model_variables_stage_levels_flags p,
                calculate_initial_zone_code_and_lo_zone p] M_var_init of
        Inl es \<Rightarrow> Inl es
      | Inr t \<Rightarrow> seq [daily_loop p] t)"
    by (rule seq_append)
  also have "\<dots> = (case seq [determine_seasons p, calculate_targ_stg_df p,
                initialize_model_variables_stage_levels_flags p,
                calculate_initial_zone_code_and_lo_zone p] M_var_init of
        Inl es \<Rightarrow> Inl es
      | Inr t \<Rightarrow> daily_loop p t)"
    by (rule sum.case_cong) (simp_all split: sum.splits)
  finally show ?thesis .
qed

lemma frames_LOONE_Q:
  "frames (pre_loop_writes p @ concat (map (daily_writes p) [0 ..< n_rows p - 2]))
     (\<lambda>s. case seq [determine_seasons p, calculate_targ_stg_df p,
                initialize_model_variables_stage_levels_flags p,
                calculate_initial_zone_code_and_lo_zone p] s of
        Inl es \<Rightarrow> Inl es
      | Inr t \<Rightarrow> daily_loop p t)"
  using frames_pre_loop frames_daily_loop by (rule frames_then) simp

lemma written_LOONE_Q:
  "set (written (final_state (LOONE_Q p)))
     \<subseteq> set (pre_loop_writes p @ concat (map (daily_writes p) [0 ..< n_rows p - 2]))"
  using frames_written [OF frames_LOONE_Q, where s = M_var_init and p1 = p]
  by (simp add: LOONE_Q_split new_writes_def M_var_init_def)

lemma cell_LOONE_Q:
  assumes "c \<notin> set (pre_loop_writes p @ concat (map (daily_writes p) [0 ..< n_rows p - 2]))"
  shows "cell_of (final_state (LOONE_Q p)) c = cell_of M_var_init c"
  using frames_cell [OF frames_LOONE_Q assms, where s = M_var_init]
  by (simp add: LOONE_Q_split)

lemma LOONE_Q_env0:
  "\<exists>t. LOONE_Q (env0\<lparr>storage_deviation := d\<rparr>) = Inl (NameError, t)
     \<and> small_run t
     \<and> written t = pre_loop_writes (env0\<lparr>storage_deviation := d\<rparr>)
                     @ daily_writes_before_dsto (env0\<lparr>storage_deviation := d\<rparr>) 0"
proof -
  let ?p = "env0\<lparr>storage_deviation := d\<rparr>"
  from runs_okD [OF runs_ok_pre_loop_env0 small_run_init, of d]
  obtain s where s: "seq [determine_seasons ?p, calculate_targ_stg_df ?p,
      initialize_model_variables_stage_levels_flags ?p,
      calculate_initial_zone_code_and_lo_zone ?p] M_var_init = Inr s" "small_run s"
    by blast
  from frames_written_returns [OF frames_pre_loop s(1)]
  have w: "written s = pre_loop_writes ?p"
    by (simp add: M_var_init_def)
  from daily_body_env0 [OF s(2), of 0 d]
  obtain t where t: "daily_body ?p 0 s = Inl (NameError, t)" "small_run t"
    "written t = written s @ daily_writes_before_dsto ?p 0"
    by auto
  have "3 \<le> n_rows ?p"
    by (simp add: env0_def)
  from daily_loop_first_day [OF this, of s] s(1) t(1)
  have "LOONE_Q ?p = Inl (NameError, t)"
    by (simp add: LOONE_Q_split)
  with t(2,3) w show ?thesis by simp
qed


lemma env0_storage_deviation: "env0\<lparr>storage_deviation := (\<lambda>k. 0)\<rparr> = env0"
  by (simp add: env0_def)

lemma initialize_raises:
  assumes "n_rows p < 3"
  shows "initialize_model_variables_stage_levels_flags p s \<noteq> Inr s'"
  using assms
  by (simp add: initialize_model_variables_stage_levels_flags_def assign_in_def
      assign_nan_in_def raise_def assign_def assign_nan_def)

lemma LOONE_Q_never_returns: "LOONE_Q p \<noteq> Inr s'"
proof (cases "3 \<le> n_rows p")
  case True
  then show ?thesis
    by (simp add: LOONE_Q_split daily_loop_first_day daily_body_never_returns
        split: sum.splits)
next
  case False
  then have "initialize_model_variables_stage_levels_flags p s \<noteq> Inr s'" for s s'
    by (intro initialize_raises) simp
  then show ?thesis
    by (auto simp add: LOONE_Q_split split: sum.splits)
qed

lemma daily_writes_AP:
  assumes "c \<in> set (daily_writes p i)" and "fst c \<in> set AP_arrays"
  shows "snd c = i \<and> int i < int (n_rows p) - 2"
proof -
  have "list_all (\<lambda>c. fst c \<notin> set AP_arrays) (daily_writes p i)"
    if "\<not> int i < int (n_rows p) - 2"
    using that
    by (simp add: daily_writes_def daily_writes_before_dsto_def AP_arrays_def
        THC_Class_writes_def)
  with assms have "int i < int (n_rows p) - 2"
    unfolding list_all_iff by blast
  moreover have "day_offset (fst c) = 0"
  proof -
    have "list_all (\<lambda>v. v \<notin> set offset_1_arrays) AP_arrays"
      by (simp add: AP_arrays_def THC_Class_writes_def offset_1_arrays_def)
    with assms(2) show ?thesis
      by (auto simp: list_all_iff day_offset_def offset_0_arrays_def AP_arrays_def)
  qed
  ultimately show ?thesis
    using daily_writes_offset [OF assms(1)] by simp
qed

lemma pre_loop_not_AP: "c \<in> set (pre_loop_writes p) \<Longrightarrow> fst c \<notin> set AP_arrays"
proof -
  have "list_all (\<lambda>v. v \<notin> set AP_arrays)
     [''Daily_Seasons'', ''Mon'', ''V10per'', ''V20per'', ''V25per'', ''V30per'', ''V40per'',
      ''V45per'', ''V50per'', ''V60per'', ''Lake_Stage'', ''DecTree_Relslevel'', ''DayFlags'',
      ''Zone_Code'', ''LO_Zone'']"
    by (simp add: AP_arrays_def THC_Class_writes_def)
  moreover assume "c \<in> set (pre_loop_writes p)"
  then have "fst c \<in> set [''Daily_Seasons'', ''Mon'', ''V10per'', ''V20per'', ''V25per'',
      ''V30per'', ''V40per'', ''V45per'', ''V50per'', ''V60per'', ''Lake_Stage'',
      ''DecTree_Relslevel'', ''DayFlags'', ''Zone_Code'', ''LO_Zone'']"
    by (auto simp: pre_loop_writes_def)
  ultimately show ?thesis
    unfolding list_all_iff by blast
qed

lemma run_writes_AP:
  assumes "c \<in> set (pre_loop_writes p @ concat (map (daily_writes p) [0 ..< n_rows p - 2]))"
    and "fst c \<in> set AP_arrays"
  shows "int (snd c) < int (n_rows p) - 2"
proof -
  from assms pre_loop_not_AP [of c p]
  obtain i where c: "c \<in> set (daily_writes p i)"
    by auto
  from daily_writes_AP [OF c assms(2)] show ?thesis by simp
qed

subsection \<open>Unfolding the statements\<close>

lemmas stmt_simps = assign_def assign_res_def assign_nan_def assign_int_def assign_flag_def
  bind_res_def

subsection \<open>The pulse table\<close>

lemma df_at_last:
  "rows \<noteq> [] \<Longrightarrow> df_at rows (int (length rows) - 1) col = Inr (last rows col)"
  by (simp add: df_at_def last_conv_nth nat_diff_distrib')

lemma pulse_row_negative:
  "PlsDay_v - 1 < 0 \<Longrightarrow> pulse_row p PlsDay_v = int (length (Pulses p)) - 1"
  by (simp add: pulse_row_def)

subsection \<open>The claims\<close>

text \<open>
  C1 fails on the code. \<^verbatim>\<open>_calculate_dsto_and_storage\<close> does compute the sum of the claim: run
  from any state, with any start storage, it returns and \<^verbatim>\<open>DSto[i + 2]\<close> is \<^verbatim>\<open>NI_Supply\<close>
  plus \<^verbatim>\<open>RF\<close> minus \<^verbatim>\<open>ET\<close>, plus 1.9835 times (\<^verbatim>\<open>Outlet2USBK\<close> + \<^verbatim>\<open>Outlet1USBK\<close> +
  \<^verbatim>\<open>WSA_MIA\<close> + \<^verbatim>\<open>WSA_NNR\<close> - \<^verbatim>\<open>Outlet1USEWS\<close>), minus \<^verbatim>\<open>TotRegEW\<close>, minus \<^verbatim>\<open>TotRegSo\<close>,
  plus the storage deviation, all at index \<open>i + 2\<close>. But the loop never calls it: the
  call names \<^verbatim>\<open>start_storage\<close>, which is unbound, so every iteration stops there with
  NameError and leaves \<^verbatim>\<open>DSto[i + 2]\<close> as it was, and \<^verbatim>\<open>LOONE_Q\<close> returns for no input. In
  the run of five rows with a storage deviation of 5, \<^verbatim>\<open>LOONE_Q\<close> stops with NameError on
  its first day, in a state where \<^verbatim>\<open>DSto[2]\<close> is still the initial 0 while the sum of the
  claim is 5.
\<close>

theorem C1_start_storage_unbound:
  "(\<exists>t. LOONE_Q env_deviation = Inl (NameError, t)
      \<and> arr t ''DSto'' 2 = 0
      \<and>   arr t ''NI_Supply'' 2
          + arr t ''RF'' 2
          - arr t ''ET'' 2
          + 1.9835 * (  arr t ''Outlet2USBK'' 2
                      + arr t ''Outlet1USBK'' 2
                      + arr t ''WSA_MIA'' 2
                      + arr t ''WSA_NNR'' 2
                      - arr t ''Outlet1USEWS'' 2)
          - arr t ''TotRegEW'' 2
          - arr t ''TotRegSo'' 2
          + storage_deviation env_deviation 2 = 5)
   \<and> (\<exists>e t. daily_body p i s = Inl (e, t)
          \<and> (''DSto'', i + 2) \<notin> set (new_writes s t)
          \<and> arr t ''DSto'' (i + 2) = arr s ''DSto'' (i + 2))
   \<and> (\<exists>e t. LOONE_Q p = Inl (e, t))
   \<and> (\<exists>s'. calculate_dsto_and_storage p start_storage i s = Inr s'
          \<and> arr s' ''DSto'' (i + 2) =
                arr s' ''NI_Supply'' (i + 2)
              + arr s' ''RF'' (i + 2)
              - arr s' ''ET'' (i + 2)
              + 1.9835 * (  arr s' ''Outlet2USBK'' (i + 2)
                          + arr s' ''Outlet1USBK'' (i + 2)
                          + arr s' ''WSA_MIA'' (i + 2)
                          + arr s' ''WSA_NNR'' (i + 2)
                          - arr s' ''Outlet1USEWS'' (i + 2))
              - arr s' ''TotRegEW'' (i + 2)
              - arr s' ''TotRegSo'' (i + 2)
              + storage_deviation p (i + 2)
          \<and> arr s' ''NI_Supply'' (i + 2) = arr s ''NI_Supply'' (i + 2)
          \<and> arr s' ''RF'' (i + 2) = arr s ''RF'' (i + 2)
          \<and> arr s' ''ET'' (i + 2) = arr s ''ET'' (i + 2)
          \<and> arr s' ''Outlet2USBK'' (i + 2) = arr s ''Outlet2USBK'' (i + 2)
          \<and> arr s' ''Outlet1USBK'' (i + 2) = arr s ''Outlet1USBK'' (i + 2)
          \<and> arr s' ''WSA_MIA'' (i + 2) = arr s ''WSA_MIA'' (i + 2)
          \<and> arr s' ''WSA_NNR'' (i + 2) = arr s ''WSA_NNR'' (i + 2)
          \<and> arr s' ''Outlet1USEWS'' (i + 2) = arr s ''Outlet1USEWS'' (i + 2)
          \<and> arr s' ''TotRegEW'' (i + 2) = arr s ''TotRegEW'' (i + 2)
          \<and> arr s' ''TotRegSo'' (i + 2) = arr s ''TotRegSo'' (i + 2))"
proof -
  have 1: "\<exists>t. LOONE_Q env_deviation = Inl (NameError, t)
      \<and> arr t ''DSto'' 2 = 0
      \<and>   arr t ''NI_Supply'' 2
          + arr t ''RF'' 2
          - arr t ''ET'' 2
          + 1.9835 * (  arr t ''Outlet2USBK'' 2
                      + arr t ''Outlet1USBK'' 2
                      + arr t ''WSA_MIA'' 2
                      + arr t ''WSA_NNR'' 2
                      - arr t ''Outlet1USEWS'' 2)
          - arr t ''TotRegEW'' 2
          - arr t ''TotRegSo'' 2
          + storage_deviation env_deviation 2 = 5"
  proof -
    from LOONE_Q_env0 [of "\<lambda>k. 5"]
    obtain t where t: "LOONE_Q env_deviation = Inl (NameError, t)" "small_run t"
      unfolding env_deviation_def by blast
    have z: "arr t v 2 = 0"
      if "v \<in> set [''DSto'', ''NI_Supply'', ''RF'', ''ET'', ''Outlet2USBK'', ''Outlet1USBK'',
            ''WSA_MIA'', ''WSA_NNR'', ''Outlet1USEWS'', ''TotRegEW'', ''TotRegSo'']" for v
    proof -
      have "list_all (\<lambda>v. v \<notin> set (''Daily_Seasons'' # ''Mon'' # AP_arrays))
          [''DSto'', ''NI_Supply'', ''RF'', ''ET'', ''Outlet2USBK'', ''Outlet1USBK'',
            ''WSA_MIA'', ''WSA_NNR'', ''Outlet1USEWS'', ''TotRegEW'', ''TotRegSo'']"
        by (simp add: AP_arrays_def THC_Class_writes_def)
      with that have "v \<notin> set (''Daily_Seasons'' # ''Mon'' # AP_arrays)"
        unfolding list_all_iff by blast
      with t(2) show ?thesis by (rule small_run_arr)
    qed
    have d: "storage_deviation env_deviation 2 = 5"
      by (simp add: env_deviation_def)
    from t(1) show ?thesis
      by (simp add: z d)
  qed
  have 2: "\<exists>e t. daily_body p i s = Inl (e, t)
          \<and> (''DSto'', i + 2) \<notin> set (new_writes s t)
          \<and> arr t ''DSto'' (i + 2) = arr s ''DSto'' (i + 2)"
  proof -
    obtain e t where r: "daily_body p i s = Inl (e, t)"
      using daily_body_never_returns [of p i s] by (cases "daily_body p i s") auto
    from frames_written [OF frames_daily_body_before_dsto [of p i], of s] r
      DSto_not_before_dsto [of "i + 2" p i]
    have w: "(''DSto'', i + 2) \<notin> set (new_writes s t)"
      by auto
    from frames_cell [OF frames_daily_body_before_dsto [of p i]
        DSto_not_before_dsto [of "i + 2" p i], of s] r
    have "arr t ''DSto'' (i + 2) = arr s ''DSto'' (i + 2)"
      by (simp add: cell_of_def)
    with r w show ?thesis by blast
  qed
  have 3: "\<exists>e t. LOONE_Q p = Inl (e, t)"
    using LOONE_Q_never_returns [of p] by (cases "LOONE_Q p") auto
  have 4: "\<exists>s'. calculate_dsto_and_storage p start_storage i s = Inr s'
          \<and> arr s' ''DSto'' (i + 2) =
                arr s' ''NI_Supply'' (i + 2)
              + arr s' ''RF'' (i + 2)
              - arr s' ''ET'' (i + 2)
              + 1.9835 * (  arr s' ''Outlet2USBK'' (i + 2)
                          + arr s' ''Outlet1USBK'' (i + 2)
                          + arr s' ''WSA_MIA'' (i + 2)
                          + arr s' ''WSA_NNR'' (i + 2)
                          - arr s' ''Outlet1USEWS'' (i + 2))
              - arr s' ''TotRegEW'' (i + 2)
              - arr s' ''TotRegSo'' (i + 2)
              + storage_deviation p (i + 2)
          \<and> arr s' ''NI_Supply'' (i + 2) = arr s ''NI_Supply'' (i + 2)
          \<and> arr s' ''RF'' (i + 2) = arr s ''RF'' (i + 2)
          \<and> arr s' ''ET'' (i + 2) = arr s ''ET'' (i + 2)
          \<and> arr s' ''Outlet2USBK'' (i + 2) = arr s ''Outlet2USBK'' (i + 2)
          \<and> arr s' ''Outlet1USBK'' (i + 2) = arr s ''Outlet1USBK'' (i + 2)
          \<and> arr s' ''WSA_MIA'' (i + 2) = arr s ''WSA_MIA'' (i + 2)
          \<and> arr s' ''WSA_NNR'' (i + 2) = arr s ''WSA_NNR'' (i + 2)
          \<and> arr s' ''Outlet1USEWS'' (i + 2) = arr s ''Outlet1USEWS'' (i + 2)
          \<and> arr s' ''TotRegEW'' (i + 2) = arr s ''TotRegEW'' (i + 2)
          \<and> arr s' ''TotRegSo'' (i + 2) = arr s ''TotRegSo'' (i + 2)"
    by (simp add: calculate_dsto_and_storage_def assign_def)
  from 1 2 3 4 show ?thesis by blast
qed

text \<open>
  C3 as stated fails for zone B. The code of zone B has the meteorological forecast in
  the tens and the seasonal code in the units, and no multi-seasonal code at all. On a day
  where the tributary, stage and forecast codes of zone B are 0 and its seasonal code
  is 1 (the multi-seasonal class of the day being 0), the code computed is 1, while the
  formula of the claim, with the seasonal code in the tens, gives 10.
\<close>

theorem C3_counterexample:
  "arr_after (calculate_decision_tree_variables env_B_Seas 0 M_var_init) ''Zone_B_Branch_Code'' 0
     = Some 1
   \<and> arr_after (calculate_decision_tree_variables env_B_Seas 0 M_var_init) ''Zone_B_Trib'' 0
     = Some 0
   \<and> arr_after (calculate_decision_tree_variables env_B_Seas 0 M_var_init) ''Zone_B_Stage'' 0
     = Some 0
   \<and> dec_tree_df_Zone_B_MetFcast env_B_Seas 0 = 0
   \<and> arr_after (calculate_decision_tree_variables env_B_Seas 0 M_var_init) ''Zone_B_Seas'' 0
     = Some 1
   \<and> df env_B_Seas ''tc_lonino_df'' ''LONINO_MultiSeasonal_Classes'' 0 = 0
   \<and> (1::real) \<noteq> 1000 * 0 + 100 * 0 + 10 * 1 + 1 * 0"
  by (simp add: calculate_decision_tree_variables_def stmt_simps arr_after_def env_B_Seas_def
      env0_def M_var_init_def dec_tree_df_Zone_B_MetFcast_def)

text \<open>
  C3, amended. \<^verbatim>\<open>_calculate_decision_tree_variables\<close> always returns, and the codes it
  leaves are: for zone D, 1000 tributary + 100 stage + 10 seasonal + 1 multi-seasonal;
  for zone C, 1000 tributary + 100 meteorological forecast + 10 seasonal + 1
  multi-seasonal; for zone B, 1000 tributary + 100 stage + 10 meteorological forecast
  (the column \<^verbatim>\<open>Zone_B_MetFcast\<close>) + 1 seasonal. This holds for all values of the
  sub-codes.
\<close>

theorem C3_branch_codes:
  "\<exists>s'. calculate_decision_tree_variables p i s = Inr s'
     \<and> arr s' ''Zone_D_Branch_Code'' i =
           1000 * arr s' ''Zone_D_Trib'' i + 100 * arr s' ''Zone_D_stage'' i
         + 10 * arr s' ''Zone_D_Seas'' i + 1 * arr s' ''Zone_D_MSeas'' i
     \<and> arr s' ''Zone_C_Branch_Code'' i =
           1000 * arr s' ''Zone_C_Trib'' i + 100 * arr s' ''Zone_C_MetFcast'' i
         + 10 * arr s' ''Zone_C_Seas'' i + 1 * arr s' ''Zone_C_MSeas'' i
     \<and> arr s' ''Zone_B_Branch_Code'' i =
           1000 * arr s' ''Zone_B_Trib'' i + 100 * arr s' ''Zone_B_Stage'' i
         + 10 * dec_tree_df_Zone_B_MetFcast p i + 1 * arr s' ''Zone_B_Seas'' i"
  by (simp add: calculate_decision_tree_variables_def stmt_simps)

text \<open>
  C5. Take the run of \<^verbatim>\<open>LOONE_Q\<close> over \<open>n_rows\<close> day slots, up to the state in which it
  stops (every run stops early, with an error). The rule chain is skipped at every index
  that is not below \<open>n_rows - 2\<close>; an iteration of the loop, run from any state, assigns
  cells of the adaptive-protocol arrays only at its own index and only if that index is
  below \<open>n_rows - 2\<close>; every cell of an adaptive-protocol array that the run has assigned
  has an index below \<open>n_rows - 2\<close>; and at the indices from \<open>n_rows - 2\<close> on, the
  adaptive-protocol arrays (\<^verbatim>\<open>Post_Ap_Baseflow\<close>, \<^verbatim>\<open>Post_AP_EWS\<close> and the rule flags among
  them) still hold the zero that \<^verbatim>\<open>M_var.__init__\<close> put there. These arrays have
  \<open>n_rows - 1\<close> cells, so there is one such slot, the last.
\<close>

theorem C5_tail_days_keep_defaults:
  "(\<forall>i. \<not> int i < int (n_rows p) - 2 \<longrightarrow> define_thc_class_normal_or_above p i = skip)
   \<and> (\<forall>i s. \<forall>c \<in> set (new_writes s (final_state (daily_body p i s))).
          fst c \<in> set AP_arrays \<longrightarrow> snd c = i \<and> int i < int (n_rows p) - 2)
   \<and> (\<forall>c \<in> set (written (final_state (LOONE_Q p))).
          fst c \<in> set AP_arrays \<longrightarrow> int (snd c) < int (n_rows p) - 2)
   \<and> (\<forall>v \<in> set AP_arrays. \<forall>k. int (n_rows p) - 2 \<le> int k \<longrightarrow>
          arr (final_state (LOONE_Q p)) v k = 0
        \<and> arr_nan (final_state (LOONE_Q p)) v k = Fl 0)"
proof -
  let ?W = "pre_loop_writes p @ concat (map (daily_writes p) [0 ..< n_rows p - 2])"
  have 1: "\<forall>i. \<not> int i < int (n_rows p) - 2 \<longrightarrow> define_thc_class_normal_or_above p i = skip"
    by (simp add: define_thc_class_normal_or_above_def)
  have 2: "\<forall>i s. \<forall>c \<in> set (new_writes s (final_state (daily_body p i s))).
          fst c \<in> set AP_arrays \<longrightarrow> snd c = i \<and> int i < int (n_rows p) - 2"
    using frames_written [OF frames_daily_body] daily_writes_AP by blast
  have 3: "\<forall>c \<in> set (written (final_state (LOONE_Q p))).
          fst c \<in> set AP_arrays \<longrightarrow> int (snd c) < int (n_rows p) - 2"
    using written_LOONE_Q [of p] run_writes_AP [of _ p] by blast
  have 4: "arr (final_state (LOONE_Q p)) v k = 0 \<and> arr_nan (final_state (LOONE_Q p)) v k = Fl 0"
    if v: "v \<in> set AP_arrays" and k: "int (n_rows p) - 2 \<le> int k" for v k
  proof -
    have "(v, k) \<notin> set ?W"
      using run_writes_AP [of "(v, k)" p] v k by auto
    from cell_LOONE_Q [OF this]
    show ?thesis by (simp add: cell_of_def M_var_init_def)
  qed
  from 1 2 3 4 show ?thesis by blast
qed

theorem C5_tail_days_witness:
  "(\<exists>t. LOONE_Q env0 = Inl (NameError, t))
   \<and> define_thc_class_normal_or_above env0 3 = skip
   \<and> (''Post_Ap_Baseflow'', 0) \<in> set (written (final_state (LOONE_Q env0)))
   \<and> int 0 < int (n_rows env0) - 2
   \<and> (''Post_Ap_Baseflow'', 3) \<notin> set (written (final_state (LOONE_Q env0)))
   \<and> arr (final_state (LOONE_Q env0)) ''Post_Ap_Baseflow'' 3 = 0
   \<and> arr (final_state (LOONE_Q env0)) ''Post_AP_EWS'' 3 = 0
   \<and> arr (final_state (LOONE_Q env0)) ''All_4'' 3 = 0
   \<and> arr_nan (final_state (LOONE_Q env0)) ''Forecast_D_Sal'' 3 = Fl 0"
proof -
  from LOONE_Q_env0 [of "\<lambda>k. 0"]
  obtain t where t: "LOONE_Q env0 = Inl (NameError, t)"
    "written t = pre_loop_writes env0 @ daily_writes_before_dsto env0 0"
    unfolding env0_storage_deviation by blast
  have f: "final_state (LOONE_Q env0) = t"
    by (simp add: t(1))
  have r: "\<exists>t. LOONE_Q env0 = Inl (NameError, t)"
    using t(1) by blast
  have w: "(''Post_Ap_Baseflow'', 0) \<in> set (written (final_state (LOONE_Q env0)))"
    unfolding f t(2) by (simp add: daily_writes_before_dsto_def env0_def)
  have n: "\<not> int 3 < int (n_rows env0) - 2" "int (n_rows env0) - 2 \<le> int 3"
    by (simp_all add: env0_def)
  have m: "''Post_Ap_Baseflow'' \<in> set AP_arrays" "''Post_AP_EWS'' \<in> set AP_arrays"
    "''All_4'' \<in> set AP_arrays" "''Forecast_D_Sal'' \<in> set AP_arrays"
    by (simp_all add: AP_arrays_def THC_Class_writes_def)
  note c5 = C5_tail_days_keep_defaults [of env0]
  from c5 n(1) have 1: "define_thc_class_normal_or_above env0 3 = skip"
    by blast
  from c5 w m(1) have 2: "int 0 < int (n_rows env0) - 2"
    by fastforce
  from c5 n(1) m(1) have 3: "(''Post_Ap_Baseflow'', 3) \<notin> set (written (final_state (LOONE_Q env0)))"
    by fastforce
  from c5 n(2) m have 4: "arr (final_state (LOONE_Q env0)) ''Post_Ap_Baseflow'' 3 = 0"
    "arr (final_state (LOONE_Q env0)) ''Post_AP_EWS'' 3 = 0"
    "arr (final_state (LOONE_Q env0)) ''All_4'' 3 = 0"
    "arr_nan (final_state (LOONE_Q env0)) ''Forecast_D_Sal'' 3 = Fl 0"
    by blast+
  from r 1 w 2 3 4 show ?thesis by blast
qed

text \<open>
  C6. On a day whose pulse-day counter makes the requested row \<^verbatim>\<open>PlsDay - 1\<close> negative
  (a request of -1, say), and with a pulse table that has a row, the row computed is
  \<^verbatim>\<open>len(Pulses) - 1\<close>, the lookup at that row returns the last row, in any column, and
  neither \<^verbatim>\<open>_calculate_outlet2dsrs\<close> (the S-80 lookups) nor \<^verbatim>\<open>_calculate_outlet1usrs\<close>
  (the S-77 lookups) raises: each passes the three values of the last row on.
\<close>

theorem C6_negative_pulse_row_wraps:
  assumes "arr_int s ''PlsDay'' (i + 2) - 1 < 0" and "Pulses p \<noteq> []"
  shows "pulse_row p (arr_int s ''PlsDay'' (i + 2)) = int (length (Pulses p)) - 1
     \<and> (\<forall>col. df_at (Pulses p) (pulse_row p (arr_int s ''PlsDay'' (i + 2))) col
                = Inr (last (Pulses p) col))
     \<and> (\<exists>s'. calculate_outlet2dsrs p i s = Inr s'
          \<and> arr s' ''Outlet2DSRS'' (i + 2) = lo_functions p ''Outlet2DSRS''
              [R (arr s ''Release_Level'' (i + 2)),
               R (df p ''S80_RegRelRates'' ''Zone_D1'' 0),
               F (s80avg_l1 p),
               R (last (Pulses p) (''S-80_L1_'' @ schedule p)),
               R (arr s ''Outlet2DS_Mult_2'' (i + 2)),
               R (CE_SLE_turns p ''SLEturn''
                    (real_of_int (year (lo_model_date p (i + 2))) - config p ''start_year'')),
               R (df p ''S80_RegRelRates'' ''Zone_D2'' 0),
               F (s80avg_l2 p),
               R (last (Pulses p) (''S-80_L2_'' @ schedule p)),
               R (df p ''S80_RegRelRates'' ''Zone_D3'' 0),
               F (s80avg_l3 p),
               R (last (Pulses p) (''S-80_L3_'' @ schedule p)),
               R (df p ''S80_RegRelRates'' ''Zone_C'' 0),
               R (df p ''S80_RegRelRates'' ''Zone_B'' 0),
               R (df p ''S80_RegRelRates'' ''Zone_A'' 0)])
     \<and> (\<exists>s'. calculate_outlet1usrs p i s = Inr s'
          \<and> arr s' ''Outlet1USRS'' (i + 2) = lo_functions p ''Outlet1USRS''
              [R (arr s ''Release_Level'' (i + 2)),
               R (df p ''S77_RegRelRates'' ''Zone_D1'' 0),
               F (s77avg_l1 p),
               R (last (Pulses p) (''S-77_L1_'' @ schedule p)),
               R (arr s ''Outlet1US_Mult_2'' (i + 2)),
               R (df p ''lo_model'' ''C43RO'' (i + 2)),
               R (CE_SLE_turns p ''CEturn''
                    (real_of_int (year (lo_model_date p (i + 2))) - config p ''start_year'')),
               R (df p ''S77_RegRelRates'' ''Zone_D2'' 0),
               F (s77avg_l2 p),
               R (last (Pulses p) (''S-77_L2_'' @ schedule p)),
               R (arr s ''Zone_Code'' (i + 1)),
               R (df p ''S77_RegRelRates'' ''Zone_D3'' 0),
               F (s77avg_l3 p),
               R (last (Pulses p) (''S-77_L3_'' @ schedule p)),
               R (df p ''S77_RegRelRates'' ''Zone_C'' 0),
               R (df p ''S77_RegRelRates'' ''Zone_B'' 0),
               R (df p ''S77_RegRelRates'' ''Zone_A'' 0),
               R (config p ''opt_outlet1_dsrg'')])"
proof -
  note row = pulse_row_negative [OF assms(1), of p]
  note at = df_at_last [OF assms(2)]
  have 1: "pulse_row p (arr_int s ''PlsDay'' (i + 2)) = int (length (Pulses p)) - 1"
    by (rule row)
  have 2: "\<forall>col. df_at (Pulses p) (pulse_row p (arr_int s ''PlsDay'' (i + 2))) col
                = Inr (last (Pulses p) col)"
    by (simp only: row at) simp
  have 3: "\<exists>s'. calculate_outlet2dsrs p i s = Inr s'
          \<and> arr s' ''Outlet2DSRS'' (i + 2) = lo_functions p ''Outlet2DSRS''
              [R (arr s ''Release_Level'' (i + 2)),
               R (df p ''S80_RegRelRates'' ''Zone_D1'' 0),
               F (s80avg_l1 p),
               R (last (Pulses p) (''S-80_L1_'' @ schedule p)),
               R (arr s ''Outlet2DS_Mult_2'' (i + 2)),
               R (CE_SLE_turns p ''SLEturn''
                    (real_of_int (year (lo_model_date p (i + 2))) - config p ''start_year'')),
               R (df p ''S80_RegRelRates'' ''Zone_D2'' 0),
               F (s80avg_l2 p),
               R (last (Pulses p) (''S-80_L2_'' @ schedule p)),
               R (df p ''S80_RegRelRates'' ''Zone_D3'' 0),
               F (s80avg_l3 p),
               R (last (Pulses p) (''S-80_L3_'' @ schedule p)),
               R (df p ''S80_RegRelRates'' ''Zone_C'' 0),
               R (df p ''S80_RegRelRates'' ''Zone_B'' 0),
               R (df p ''S80_RegRelRates'' ''Zone_A'' 0)]"
    using assms
    by (simp add: calculate_outlet2dsrs_def stmt_simps pulse_row_def df_at_last)
  have 4: "\<exists>s'. calculate_outlet1usrs p i s = Inr s'
          \<and> arr s' ''Outlet1USRS'' (i + 2) = lo_functions p ''Outlet1USRS''
              [R (arr s ''Release_Level'' (i + 2)),
               R (df p ''S77_RegRelRates'' ''Zone_D1'' 0),
               F (s77avg_l1 p),
               R (last (Pulses p) (''S-77_L1_'' @ schedule p)),
               R (arr s ''Outlet1US_Mult_2'' (i + 2)),
               R (df p ''lo_model'' ''C43RO'' (i + 2)),
               R (CE_SLE_turns p ''CEturn''
                    (real_of_int (year (lo_model_date p (i + 2))) - config p ''start_year'')),
               R (df p ''S77_RegRelRates'' ''Zone_D2'' 0),
               F (s77avg_l2 p),
               R (last (Pulses p) (''S-77_L2_'' @ schedule p)),
               R (arr s ''Zone_Code'' (i + 1)),
               R (df p ''S77_RegRelRates'' ''Zone_D3'' 0),
               F (s77avg_l3 p),
               R (last (Pulses p) (''S-77_L3_'' @ schedule p)),
               R (df p ''S77_RegRelRates'' ''Zone_C'' 0),
               R (df p ''S77_RegRelRates'' ''Zone_B'' 0),
               R (df p ''S77_RegRelRates'' ''Zone_A'' 0),
               R (config p ''opt_outlet1_dsrg'')]"
    using assms
    by (simp add: calculate_outlet1usrs_def stmt_simps pulse_row_def df_at_last)
  from 1 2 3 4 show ?thesis by blast
qed

theorem C6_negative_pulse_row_witness:
  "arr_int M_var_init ''PlsDay'' (0 + 2) - 1 < 0 \<and> Pulses env_Pulses \<noteq> []
   \<and> arr_int M_var_init ''PlsDay'' (0 + 2) - 1 = -1
   \<and> pulse_row env_Pulses (arr_int M_var_init ''PlsDay'' (0 + 2)) = 2
   \<and> df_at (Pulses env_Pulses) (pulse_row env_Pulses (arr_int M_var_init ''PlsDay'' (0 + 2)))
        (''S-80_L1_'' @ schedule env_Pulses) = Inr 30
   \<and> (\<exists>s'. calculate_outlet2dsrs env_Pulses 0 M_var_init = Inr s')
   \<and> (\<exists>s'. calculate_outlet1usrs env_Pulses 0 M_var_init = Inr s')"
proof -
  have h: "arr_int M_var_init ''PlsDay'' (0 + 2) - 1 < 0" "Pulses env_Pulses \<noteq> []"
    by (simp_all add: M_var_init_def env_Pulses_def env0_def)
  have v: "arr_int M_var_init ''PlsDay'' (0 + 2) - 1 = -1"
    "int (length (Pulses env_Pulses)) - 1 = 2"
    "\<And>col. last (Pulses env_Pulses) col = 30"
    by (simp_all add: M_var_init_def env_Pulses_def env0_def)
  note t = C6_negative_pulse_row_wraps [OF h]
  from t have r: "pulse_row env_Pulses (arr_int M_var_init ''PlsDay'' (0 + 2))
      = int (length (Pulses env_Pulses)) - 1"
    by (rule conjunct1)
  from t have d: "\<forall>col. df_at (Pulses env_Pulses)
      (pulse_row env_Pulses (arr_int M_var_init ''PlsDay'' (0 + 2))) col
      = Inr (last (Pulses env_Pulses) col)"
    by blast
  from t have e2: "\<exists>s'. calculate_outlet2dsrs env_Pulses 0 M_var_init = Inr s'"
    by blast
  from t have e1: "\<exists>s'. calculate_outlet1usrs env_Pulses 0 M_var_init = Inr s'"
    by blast
  from h v(1) r [unfolded v(2)] d [unfolded v(3)] e2 e1
  show ?thesis by blast
qed

text \<open>
  C7. \<^verbatim>\<open>_calculate_demand_not_supplied\<close> always returns. On a day whose demand
  \<^verbatim>\<open>LOSA_dmd_SFWMM\<close> is zero it stores 0, although the division by that demand would have
  raised; on a day whose demand is not zero it stores the cutback divided by the demand,
  times 100.
\<close>

theorem C7_demand_not_supplied:
  "(df p ''lo_model'' ''LOSA_dmd_SFWMM'' (i + 2) = 0 \<longrightarrow>
      (\<exists>s'. calculate_demand_not_supplied p i s = Inr s' \<and> arr s' ''Dem_N_Sup'' (i + 2) = 0)
      \<and> py_div (arr s ''Cut_back'' (i + 2)) (df p ''lo_model'' ''LOSA_dmd_SFWMM'' (i + 2))
          = Inl ZeroDivisionError)
   \<and> (df p ''lo_model'' ''LOSA_dmd_SFWMM'' (i + 2) \<noteq> 0 \<longrightarrow>
      (\<exists>s'. calculate_demand_not_supplied p i s = Inr s'
         \<and> arr s' ''Dem_N_Sup'' (i + 2)
             = arr s ''Cut_back'' (i + 2) / df p ''lo_model'' ''LOSA_dmd_SFWMM'' (i + 2) * 100))"
  by (simp add: calculate_demand_not_supplied_def stmt_simps py_div_def)

theorem C7_demand_not_supplied_witness:
  "df env0 ''lo_model'' ''LOSA_dmd_SFWMM'' (0 + 2) = 0
   \<and> (\<exists>s'. calculate_demand_not_supplied env0 0 M_var_init = Inr s'
         \<and> arr s' ''Dem_N_Sup'' (0 + 2) = 0)
   \<and> df env_demand ''lo_model'' ''LOSA_dmd_SFWMM'' (0 + 2) \<noteq> 0
   \<and> (\<exists>s'. calculate_demand_not_supplied env_demand 0 M_var_init = Inr s'
         \<and> arr s' ''Dem_N_Sup'' (0 + 2)
             = arr M_var_init ''Cut_back'' (0 + 2)
               / df env_demand ''lo_model'' ''LOSA_dmd_SFWMM'' (0 + 2) * 100)"
proof -
  have z: "df env0 ''lo_model'' ''LOSA_dmd_SFWMM'' (0 + 2) = 0"
    by (simp add: env0_def)
  have n: "df env_demand ''lo_model'' ''LOSA_dmd_SFWMM'' (0 + 2) \<noteq> 0"
    by (simp add: env_demand_def env0_def)
  from C7_demand_not_supplied [of env0 0 M_var_init]
    C7_demand_not_supplied [of env_demand 0 M_var_init] z n
  show ?thesis by blast
qed

text \<open>
  C8. Take iteration \<open>i\<close> of the daily loop, run from any state up to the state in which
  it stops, and a later iteration \<open>j\<close>, run likewise from any state. Every cell of a
  model-variable array that iteration \<open>i\<close> assigns lies at index \<open>i\<close> plus the day offset
  of its variable; iteration \<open>j\<close> assigns none of these cells and leaves their content as
  it was; and the iterations that follow \<open>i\<close> in the loop, run from any state, assign none
  of them and leave them unchanged. The same holds of the two functions that the unbound
  \<^verbatim>\<open>start_storage\<close> keeps the loop from calling, \<^verbatim>\<open>_calculate_dsto_and_storage\<close> (with any
  start storage) and \<^verbatim>\<open>_calculate_lake_stage\<close>: on day \<open>i\<close> they assign cells at index
  \<open>i\<close> plus the day offset only, and no cell at such an index is assigned or changed by
  them or by the loop body on day \<open>j\<close>. (Within one iteration the cells
  \<^verbatim>\<open>Post_Ap_Baseflow[i]\<close> and \<^verbatim>\<open>Post_AP_EWS[i]\<close> are assigned twice, by \<^verbatim>\<open>THC_Class\<close> and
  by its caller.)
\<close>

theorem C8_iterations_write_disjoint_cells:
  assumes "i < j"
  shows "(\<forall>c \<in> set (new_writes s (final_state (daily_body p i s))).
            snd c = i + day_offset (fst c))
       \<and> set (new_writes s (final_state (daily_body p i s)))
           \<inter> set (new_writes t (final_state (daily_body p j t))) = {}
       \<and> (\<forall>c \<in> set (new_writes s (final_state (daily_body p i s))).
            cell_of (final_state (daily_body p j t)) c = cell_of t c)
       \<and> set (new_writes s (final_state (daily_body p i s)))
           \<inter> set (new_writes u (final_state (for_loop [Suc i ..< m] (daily_body p) u))) = {}
       \<and> (\<forall>c \<in> set (new_writes s (final_state (daily_body p i s))).
            cell_of (final_state (for_loop [Suc i ..< m] (daily_body p) u)) c = cell_of u c)
       \<and> (\<forall>c \<in> set (new_writes s (final_state (calculate_dsto_and_storage p x i s)))
                \<union> set (new_writes s (final_state (calculate_lake_stage p i s))).
            snd c = i + day_offset (fst c))
       \<and> (\<forall>c. snd c = i + day_offset (fst c) \<longrightarrow>
              c \<notin> set (new_writes t (final_state (daily_body p j t)))
            \<and> cell_of (final_state (daily_body p j t)) c = cell_of t c
            \<and> c \<notin> set (new_writes t (final_state (calculate_dsto_and_storage p y j t)))
            \<and> cell_of (final_state (calculate_dsto_and_storage p y j t)) c = cell_of t c
            \<and> c \<notin> set (new_writes t (final_state (calculate_lake_stage p j t)))
            \<and> cell_of (final_state (calculate_lake_stage p j t)) c = cell_of t c)"
proof -
  let ?Wi = "set (new_writes s (final_state (daily_body p i s)))"
  have wi: "?Wi \<subseteq> set (daily_writes p i)"
    using frames_daily_body by (rule frames_written)
  have wj: "set (new_writes t (final_state (daily_body p j t))) \<subseteq> set (daily_writes p j)"
    using frames_daily_body by (rule frames_written)
  have wl: "set (new_writes u (final_state (for_loop [Suc i ..< m] (daily_body p) u)))
      \<subseteq> set (concat (map (daily_writes p) [Suc i ..< m]))"
    using frames_daily_loop_from by (rule frames_written)
  have di: "set [(''DSto'', i + 2), (''Storage'', i + 2)] \<subseteq> set (daily_writes p i)"
    "set [(''Lake_Stage'', i + 2)] \<subseteq> set (daily_writes p i)"
    by (simp_all add: daily_writes_def)
  have dj: "set [(''DSto'', j + 2), (''Storage'', j + 2)] \<subseteq> set (daily_writes p j)"
    "set [(''Lake_Stage'', j + 2)] \<subseteq> set (daily_writes p j)"
    by (simp_all add: daily_writes_def)
  have off: "c \<notin> set (daily_writes p j)" if "snd c = i + day_offset (fst c)" for c
    using that assms daily_writes_offset [of c p j] by auto
  have later: "c \<notin> set (concat (map (daily_writes p) [Suc i ..< m]))"
    if "c \<in> set (daily_writes p i)" for c
    using that by (rule daily_writes_later) simp
  have 1: "\<forall>c \<in> ?Wi. snd c = i + day_offset (fst c)"
    using wi daily_writes_offset by blast
  have 2: "?Wi \<inter> set (new_writes t (final_state (daily_body p j t))) = {}"
    using 1 wj off by blast
  have 3: "\<forall>c \<in> ?Wi. cell_of (final_state (daily_body p j t)) c = cell_of t c"
    using 1 off frames_cell [OF frames_daily_body] by blast
  have 4: "?Wi \<inter> set (new_writes u (final_state (for_loop [Suc i ..< m] (daily_body p) u))) = {}"
    using wi wl later by blast
  have 5: "\<forall>c \<in> ?Wi. cell_of (final_state (for_loop [Suc i ..< m] (daily_body p) u)) c
      = cell_of u c"
    using wi later frames_cell [OF frames_daily_loop_from] by blast
  have 6: "\<forall>c \<in> set (new_writes s (final_state (calculate_dsto_and_storage p x i s)))
                \<union> set (new_writes s (final_state (calculate_lake_stage p i s))).
            snd c = i + day_offset (fst c)"
    using frames_written [OF frames_calculate_dsto_and_storage [of i p x], of s]
      frames_written [OF frames_calculate_lake_stage [of i p], of s] di
      daily_writes_offset [of _ p i]
    by blast
  have 7: "c \<notin> set (new_writes t (final_state (daily_body p j t)))
            \<and> cell_of (final_state (daily_body p j t)) c = cell_of t c
            \<and> c \<notin> set (new_writes t (final_state (calculate_dsto_and_storage p y j t)))
            \<and> cell_of (final_state (calculate_dsto_and_storage p y j t)) c = cell_of t c
            \<and> c \<notin> set (new_writes t (final_state (calculate_lake_stage p j t)))
            \<and> cell_of (final_state (calculate_lake_stage p j t)) c = cell_of t c"
    if c: "snd c = i + day_offset (fst c)" for c
  proof -
    note n = off [OF c]
    from n dj have nd: "c \<notin> set [(''DSto'', j + 2), (''Storage'', j + 2)]"
      and nl: "c \<notin> set [(''Lake_Stage'', j + 2)]"
      by blast+
    from n wj have a: "c \<notin> set (new_writes t (final_state (daily_body p j t)))"
      by blast
    from frames_cell [OF frames_daily_body n]
    have b: "cell_of (final_state (daily_body p j t)) c = cell_of t c" .
    from nd frames_written [OF frames_calculate_dsto_and_storage [of j p y], of t]
    have d: "c \<notin> set (new_writes t (final_state (calculate_dsto_and_storage p y j t)))"
      by blast
    from frames_cell [OF frames_calculate_dsto_and_storage nd]
    have e: "cell_of (final_state (calculate_dsto_and_storage p y j t)) c = cell_of t c" .
    from nl frames_written [OF frames_calculate_lake_stage [of j p], of t]
    have f: "c \<notin> set (new_writes t (final_state (calculate_lake_stage p j t)))"
      by blast
    from frames_cell [OF frames_calculate_lake_stage nl]
    have g: "cell_of (final_state (calculate_lake_stage p j t)) c = cell_of t c" .
    from a b d e f g show ?thesis by blast
  qed
  from 1 2 3 4 5 6 7 show ?thesis by blast
qed

theorem C8_iterations_witness:
  "(0::nat) < 1
   \<and> (\<exists>t. daily_body env0 0 M_var_init = Inl (NameError, t))
   \<and> (''WSA_NNR'', 2) \<in> set (new_writes M_var_init (final_state (daily_body env0 0 M_var_init)))
   \<and> 2 = 0 + day_offset ''WSA_NNR''
   \<and> (''WSA_NNR'', 3) \<in> set (new_writes (final_state (daily_body env0 0 M_var_init))
          (final_state (daily_body env0 1 (final_state (daily_body env0 0 M_var_init)))))
   \<and> (''WSA_NNR'', 2) \<notin> set (new_writes (final_state (daily_body env0 0 M_var_init))
          (final_state (daily_body env0 1 (final_state (daily_body env0 0 M_var_init)))))
   \<and> cell_of (final_state (daily_body env0 1 (final_state (daily_body env0 0 M_var_init))))
          (''WSA_NNR'', 2)
       = cell_of (final_state (daily_body env0 0 M_var_init)) (''WSA_NNR'', 2)
   \<and> (''WSA_NNR'', 2) \<notin> set (new_writes (final_state (daily_body env0 0 M_var_init))
          (final_state (for_loop [Suc 0 ..< 3] (daily_body env0)
             (final_state (daily_body env0 0 M_var_init)))))
   \<and> cell_of (final_state (for_loop [Suc 0 ..< 3] (daily_body env0)
             (final_state (daily_body env0 0 M_var_init)))) (''WSA_NNR'', 2)
       = cell_of (final_state (daily_body env0 0 M_var_init)) (''WSA_NNR'', 2)
   \<and> (''Lake_Stage'', 2) \<in> set (new_writes M_var_init
          (final_state (calculate_lake_stage env0 0 M_var_init)))
   \<and> 2 = 0 + day_offset ''Lake_Stage''
   \<and> (''Lake_Stage'', 2) \<notin> set (new_writes (final_state (daily_body env0 0 M_var_init))
          (final_state (calculate_lake_stage env0 1 (final_state (daily_body env0 0 M_var_init)))))"
proof -
  let ?t0 = "final_state (daily_body env0 0 M_var_init)"
  from daily_body_env0 [OF small_run_init, of 0 "\<lambda>k. 0"]
  obtain t0 where t0: "daily_body env0 0 M_var_init = Inl (NameError, t0)" "small_run t0"
    "written t0 = written M_var_init @ daily_writes_before_dsto env0 0"
    unfolding env0_storage_deviation by auto
  have f0: "?t0 = t0"
    by (simp add: t0(1))
  from daily_body_env0 [OF t0(2), of 1 "\<lambda>k. 0"]
  obtain t1 where t1: "daily_body env0 1 t0 = Inl (NameError, t1)"
    "written t1 = written t0 @ daily_writes_before_dsto env0 1"
    unfolding env0_storage_deviation by auto
  have lt: "(0::nat) < 1" by simp
  have r: "\<exists>t. daily_body env0 0 M_var_init = Inl (NameError, t)"
    using t0(1) by blast
  have c0: "(''WSA_NNR'', 2) \<in> set (new_writes M_var_init ?t0)"
    unfolding f0 by (simp add: new_writes_def t0(3) daily_writes_before_dsto_def)
  have f1: "final_state (daily_body env0 1 t0) = t1"
    by (simp only: t1(1) final_state_Inl)
  have c1: "(''WSA_NNR'', 3) \<in> set (new_writes ?t0 (final_state (daily_body env0 1 ?t0)))"
    unfolding f0 f1 by (simp add: new_writes_def t1(2) daily_writes_before_dsto_def)
  have l0: "(''Lake_Stage'', 2) \<in> set (new_writes M_var_init
          (final_state (calculate_lake_stage env0 0 M_var_init)))"
    by (simp add: calculate_lake_stage_def assign_def new_writes_def M_var_init_def)
  note c8 = C8_iterations_write_disjoint_cells [OF lt, of M_var_init env0 ?t0 ?t0 3 0 0]
  note k1 = c8 [THEN conjunct1]
  note k2 = c8 [THEN conjunct2, THEN conjunct1]
  note k3 = c8 [THEN conjunct2, THEN conjunct2, THEN conjunct1]
  note k4 = c8 [THEN conjunct2, THEN conjunct2, THEN conjunct2, THEN conjunct1]
  note k5 = c8 [THEN conjunct2, THEN conjunct2, THEN conjunct2, THEN conjunct2, THEN conjunct1]
  note k6 = c8 [THEN conjunct2, THEN conjunct2, THEN conjunct2, THEN conjunct2, THEN conjunct2,
      THEN conjunct1]
  note k7 = c8 [THEN conjunct2, THEN conjunct2, THEN conjunct2, THEN conjunct2, THEN conjunct2,
      THEN conjunct2]
  from bspec [OF k1 c0] have 1: "2 = 0 + day_offset ''WSA_NNR''"
    by simp
  from k2 c0 have 2:
    "(''WSA_NNR'', 2) \<notin> set (new_writes ?t0 (final_state (daily_body env0 1 ?t0)))"
    by blast
  from bspec [OF k3 c0] have 3:
    "cell_of (final_state (daily_body env0 1 ?t0)) (''WSA_NNR'', 2) = cell_of ?t0 (''WSA_NNR'', 2)" .
  from k4 c0 have 4: "(''WSA_NNR'', 2) \<notin> set (new_writes ?t0
        (final_state (for_loop [Suc 0 ..< 3] (daily_body env0) ?t0)))"
    by blast
  from bspec [OF k5 c0] have 5:
    "cell_of (final_state (for_loop [Suc 0 ..< 3] (daily_body env0) ?t0)) (''WSA_NNR'', 2)
       = cell_of ?t0 (''WSA_NNR'', 2)" .
  from l0 have "(''Lake_Stage'', 2) \<in> set (new_writes M_var_init
          (final_state (calculate_dsto_and_storage env0 0 0 M_var_init)))
       \<union> set (new_writes M_var_init (final_state (calculate_lake_stage env0 0 M_var_init)))"
    by (rule UnI2)
  from bspec [OF k6 this] have 6: "2 = 0 + day_offset ''Lake_Stage''"
    by simp
  have "snd (''Lake_Stage'', 2::nat) = 0 + day_offset (fst (''Lake_Stage'', 2::nat))"
    using 6 by simp
  from k7 [rule_format, OF this] have 7: "(''Lake_Stage'', 2) \<notin> set (new_writes ?t0
          (final_state (calculate_lake_stage env0 1 ?t0)))"
    by (elim conjE)
  from lt r c0 1 c1 2 3 4 5 l0 6 7 show ?thesis
    by (intro conjI)
qed

text \<open>
  C2 as stated fails. With \<open>Opt_NoAP_above_BF_SB\<close> other than 0 the logic test is
  \<open>P_AP_BF_Stg\<close>, which does not look at the LORS gate: on a day with a baseflow of 1000,
  no forecast need (so the LORS gate is false), zone 5 and the option set to 1,
  \<open>Post_Ap_Baseflow\<close> returns the whole 1000, neither min(1000, 450) nor zero.
\<close>

theorem C2_counterexample:
  "LORS08_bf_rel 1000 False = False
   \<and> Post_Ap_Baseflow
        (Logic_test_1 (All_4andStage (All_4 (LORS08_bf_rel 1000 False) True) (Sabf 5))
           (P_AP_BF_Stg 5 1000) 1)
        1000 (All_4andStagein (All_4 (LORS08_bf_rel 1000 False) True) (Sabf 5)) 450 = 1000
   \<and> min (1000::real) 450 \<noteq> 1000 \<and> (0::real) \<noteq> 1000"
  by (simp add: LORS08_bf_rel_def All_4_def All_4andStage_def All_4andStagein_def Sabf_def
      P_AP_BF_Stg_def Logic_test_1_def Post_Ap_Baseflow_def)

text \<open>
  C2, amended. If the LORS gate is false then \<open>All_4\<close> is false, for every configuration;
  and when \<open>Opt_NoAP_above_BF_SB\<close> is 0 the logic test is false too and \<open>Post_Ap_Baseflow\<close>
  is zero, so the unrestricted branch is not taken. The rules are chained as THC\_Class
  chains them.
\<close>

theorem C2_gate_false_no_unrestricted_branch:
  assumes "LORS08_bf_rel S77BS_AP n30davgForecast_v = False"
  shows "All_4 (LORS08_bf_rel S77BS_AP n30davgForecast_v) LDS_LC6_1_v = False
     \<and> (Opt_NoAP_above_BF_SB = 0 \<longrightarrow>
          Logic_test_1
            (All_4andStage (All_4 (LORS08_bf_rel S77BS_AP n30davgForecast_v) LDS_LC6_1_v)
               (Sabf Zone))
            (P_AP_BF_Stg Zone S77BS_AP) Opt_NoAP_above_BF_SB = False
        \<and> Post_Ap_Baseflow
            (Logic_test_1
               (All_4andStage (All_4 (LORS08_bf_rel S77BS_AP n30davgForecast_v) LDS_LC6_1_v)
                  (Sabf Zone))
               (P_AP_BF_Stg Zone S77BS_AP) Opt_NoAP_above_BF_SB)
            S77BS_AP
            (All_4andStagein (All_4 (LORS08_bf_rel S77BS_AP n30davgForecast_v) LDS_LC6_1_v)
               (Sabf Zone))
            Choose_1 = 0)"
  using assms
  by (simp add: All_4_def All_4andStage_def All_4andStagein_def Logic_test_1_def
      Post_Ap_Baseflow_def)

theorem C2_gate_false_witness:
  "LORS08_bf_rel 1000 False = False
   \<and> All_4 (LORS08_bf_rel 1000 False) True = False
   \<and> Post_Ap_Baseflow
        (Logic_test_1 (All_4andStage (All_4 (LORS08_bf_rel 1000 False) True) (Sabf 5))
           (P_AP_BF_Stg 5 1000) 0)
        1000 (All_4andStagein (All_4 (LORS08_bf_rel 1000 False) True) (Sabf 5)) 450 = 0"
proof -
  have h: "LORS08_bf_rel 1000 False = False"
    by (simp add: LORS08_bf_rel_def)
  from C2_gate_false_no_unrestricted_branch [OF h, of True 0 5 450] h
  show ?thesis by blast
qed

text \<open>
  C4 as stated fails in its last sentence. Option 3 is the branch that assigns a value, and
  the value it assigns is the placeholder: both functions return not-a-number there.
\<close>

theorem C4_counterexample:
  "Forecast_D_Sal 3 = Inr NaN \<and> n30d_mavg 3 = Inr NaN"
  by (simp add: Forecast_D_Sal_def n30d_mavg_def)

text \<open>
  C4, amended. For the options 1 and 2, whose branches are empty, \<open>Forecast_D_Sal\<close> and
  \<open>n30d_mavg\<close> raise an error and return nothing, so no placeholder; every option other
  than 3 does the same. For option 3 both return the not-a-number placeholder, which
  \<open>n30davgForecast\<close> does not read: under option 3 it answers with the estuary-needs-water
  flag.
\<close>

theorem C4_unimplemented_options_raise:
  "(OptSalFcast \<noteq> 3 \<longrightarrow>
       Forecast_D_Sal OptSalFcast = Inl UnboundLocalError
     \<and> n30d_mavg OptSalFcast = Inl UnboundLocalError)
   \<and> Forecast_D_Sal 1 = Inl UnboundLocalError \<and> n30d_mavg 1 = Inl UnboundLocalError
   \<and> Forecast_D_Sal 2 = Inl UnboundLocalError \<and> n30d_mavg 2 = Inl UnboundLocalError
   \<and> Forecast_D_Sal 3 = Inr NaN \<and> n30d_mavg 3 = Inr NaN
   \<and> n30davgForecast needs_water window 3 CE_SalThreshold = Inr needs_water"
  by (simp add: Forecast_D_Sal_def n30d_mavg_def n30davgForecast_def)

theorem C4_unimplemented_options_witness:
  "(1::real) \<noteq> 3 \<and> Forecast_D_Sal 1 = Inl UnboundLocalError
   \<and> n30d_mavg 1 = Inl UnboundLocalError"
  using C4_unimplemented_options_raise [of 1] by simp

text \<open>
  C9. For a strictly increasing ladder of thresholds, a stage equal to a threshold is
  classified into the zone below that threshold: the code at the threshold is the code
  of the lower zone (8 at \<open>A\<close>, down to 1 at \<open>WSM1\<close>), no stage below the threshold has a
  higher code, and every stage above it has a strictly higher one.
\<close>

theorem C9_tie_resolves_to_lower_zone:
  assumes "WSM1 < D0" "D0 < D1" "D1 < D2" "D2 < D3" "D3 < C" "C < B" "B < A"
  shows "Zone_Code A A B C D3 D2 D1 D0 WSM1 = 8
       \<and> Zone_Code B A B C D3 D2 D1 D0 WSM1 = 7
       \<and> Zone_Code C A B C D3 D2 D1 D0 WSM1 = 6
       \<and> Zone_Code D3 A B C D3 D2 D1 D0 WSM1 = 5
       \<and> Zone_Code D2 A B C D3 D2 D1 D0 WSM1 = 4
       \<and> Zone_Code D1 A B C D3 D2 D1 D0 WSM1 = 3
       \<and> Zone_Code D0 A B C D3 D2 D1 D0 WSM1 = 2
       \<and> Zone_Code WSM1 A B C D3 D2 D1 D0 WSM1 = 1
       \<and> (\<forall>t \<in> {A, B, C, D3, D2, D1, D0, WSM1}. \<forall>x.
            (x \<le> t \<longrightarrow> Zone_Code x A B C D3 D2 D1 D0 WSM1 \<le> Zone_Code t A B C D3 D2 D1 D0 WSM1)
          \<and> (t < x \<longrightarrow> Zone_Code t A B C D3 D2 D1 D0 WSM1 < Zone_Code x A B C D3 D2 D1 D0 WSM1))"
  using assms by (auto simp add: Zone_Code_def)

theorem C9_tie_witness:
  "(10::real) < 11 \<and> (11::real) < 12 \<and> (12::real) < 13 \<and> (13::real) < 14
   \<and> (14::real) < 15 \<and> (15::real) < 16 \<and> (16::real) < 17
   \<and> Zone_Code 17 17 16 15 14 13 12 11 10 = 8
   \<and> Zone_Code 13 17 16 15 14 13 12 11 10 = 4
   \<and> Zone_Code 10 17 16 15 14 13 12 11 10 = 1
   \<and> Zone_Code 13 17 16 15 14 13 12 11 10 < Zone_Code 13.01 17 16 15 14 13 12 11 10"
proof -
  have h: "(10::real) < 11" "(11::real) < 12" "(12::real) < 13" "(13::real) < 14"
    "(14::real) < 15" "(15::real) < 16" "(16::real) < 17" by simp_all
  have m: "(13::real) \<in> {17, 16, 15, 14, 13, 12, 11, 10}" "(13::real) < 13.01" by simp_all
  from C9_tie_resolves_to_lower_zone [OF h] h m
  show ?thesis by blast
qed

text \<open>
  C10. Outside the zones 1 to 4, \<open>Choose_PAPEWS_1\<close> returns the sentinel -9999 and raises
  nothing; so when the ATHCnora gate is true and the zone is neither 0 nor one of 1 to 4,
  \<open>Post_AP_EWS\<close> on that value is 10000 times \<open>Choose_PAPEWS_2\<close>.
\<close>

theorem C10_sentinel_propagates:
  assumes "WSM_Zone \<notin> {1, 2, 3, 4}"
  shows "Choose_PAPEWS_1 WSM_Zone APCB1 APCB2 APCB3 APCB4 = -9999
     \<and> (ATHCnora_v = True \<and> WSM_Zone \<noteq> 0 \<longrightarrow>
          Post_AP_EWS ATHCnora_v WSM_Zone
            (Choose_PAPEWS_1 WSM_Zone APCB1 APCB2 APCB3 APCB4) Choose_PAPEWS_2_v CalEst_ews
          = (1 - (-9999)) * Choose_PAPEWS_2_v
        \<and> Post_AP_EWS ATHCnora_v WSM_Zone
            (Choose_PAPEWS_1 WSM_Zone APCB1 APCB2 APCB3 APCB4) Choose_PAPEWS_2_v CalEst_ews
          = 10000 * Choose_PAPEWS_2_v)"
  using assms by (simp add: Choose_PAPEWS_1_def Post_AP_EWS_def)

theorem C10_sentinel_witness:
  "(5::real) \<notin> {1, 2, 3, 4}
   \<and> Choose_PAPEWS_1 5 10 20 30 40 = -9999
   \<and> Post_AP_EWS True 5 (Choose_PAPEWS_1 5 10 20 30 40) 300 650 = 10000 * 300"
proof -
  have h: "(5::real) \<notin> {1, 2, 3, 4}" by simp
  have z: "(5::real) \<noteq> 0" by simp
  from C10_sentinel_propagates [OF h, of 10 20 30 40 True 300 650] h z
  show ?thesis by blast
qed

end
